theory Spec2Isabelle
  imports Complex_Main
begin

section \<open>The fractal distance evaluator of \<open>src/hooks/useAppStore.ts\<close>\<close>

text \<open>
  Numbers. The evaluator is embedded twice. In the first embedding (this section) a
  JavaScript number is a \<^typ>\<open>real\<close>: the finite numbers, with the arithmetic of doubles
  taken as exact; \<open>NaN\<close>, the infinities and the rounding of double arithmetic are outside
  it. The one rounding that the source itself asks for is in it: a store into a
  \<open>Float32Array\<close> rounds the number to single precision (\<open>fround\<close> below). This embedding
  carries what does not depend on the values computed: the range of the fold, the
  passes of the loop for a scale outside \<open>(0, 1)\<close>, the defaults, and the independence of
  a call from what earlier calls left in the buffers. In the second embedding (section
  \<open>The evaluator in IEEE arithmetic\<close>) a number is a double, an infinity or \<open>NaN\<close> and every
  operation rounds; it carries what is said of the value returned and of the number of
  passes for a scale inside \<open>(0, 1)\<close>.

  In the first embedding \<open>Math.sin\<close>, \<open>Math.cos\<close>, \<open>Math.abs\<close>, \<open>Math.max\<close> and \<open>Math.min\<close> are
  \<^const>\<open>sin\<close>, \<^const>\<open>cos\<close>, \<^const>\<open>abs\<close>, \<^const>\<open>max\<close> and \<^const>\<open>min\<close> on the reals.
\<close>

subsection \<open>Data\<close>

text \<open>
  A three-element numeric array: the two scratch buffers \<open>new Float32Array(3)\<close> and the
  argument \<open>p_vec: number[] | Float32Array\<close>, of which only the indices 0, 1 and 2 are
  ever read. The field \<open>ix0\<close> is the element \<open>[0]\<close>, and so on.
\<close>

record buf3 =
  ix0 :: real
  ix1 :: real
  ix2 :: real

text \<open>
  The module-level state: \<open>const temp_q = new Float32Array(3)\<close> and
  \<open>const temp_q_rot = new Float32Array(3)\<close>. Both are created once, when the module is
  loaded, and every call of the evaluator reads and writes them; the model passes them
  in and returns them.
\<close>

record globals =
  temp_q :: buf3
  temp_q_rot :: buf3

text \<open>
  \<open>uniforms: any\<close> is read at three string keys only, each read followed by \<open>?? default\<close>.
  It is modelled as a partial map from keys to numbers: \<open>None\<close> is a key whose value is
  \<open>undefined\<close> or \<open>null\<close> (the two values that \<open>??\<close> replaces).
\<close>

type_synonym uniforms = "string \<rightharpoonup> real"

subsection \<open>Operators\<close>

text \<open>
  The nullish coalescing operator \<open>a ?? b\<close>.
\<close>

definition nullish :: "real option \<Rightarrow> real \<Rightarrow> real" where
  "nullish a b = (case a of None \<Rightarrow> b | Some v \<Rightarrow> v)"

text \<open>
  The remainder operator \<open>a % b\<close> on numbers: \<open>a - b * trunc (a / b)\<close>, the quotient
  truncated towards zero, so that the result has the sign of \<open>a\<close>. (For \<open>b = 0\<close>
  JavaScript yields \<open>NaN\<close>; the evaluator only divides by \<open>two_i\<close>, which is above
  \<open>0.1\<close> inside the loop.)
\<close>

definition trunc :: "real \<Rightarrow> int" where
  "trunc x = (if 0 \<le> x then \<lfloor>x\<rfloor> else \<lceil>x\<rceil>)"

definition js_rem :: "real \<Rightarrow> real \<Rightarrow> real" where
  "js_rem a b = a - b * of_int (trunc (a / b))"

subsection \<open>Stores into a \<open>Float32Array\<close>\<close>

text \<open>
  \<open>pow2 k\<close> is \<open>2\<close> to the power \<open>k\<close>, for an integer \<open>k\<close> of either sign.
\<close>

definition pow2 :: "int \<Rightarrow> real" where
  "pow2 k = (if 0 \<le> k then 2 ^ nat k else 1 / 2 ^ nat (- k))"

text \<open>
  Rounding to the nearest integer, a tie going to the even one.
\<close>

definition round_half_even :: "real \<Rightarrow> int" where
  "round_half_even y =
     (let f = \<lfloor>y\<rfloor>; r = y - of_int f
      in if r < 1 / 2 then f
         else if 1 / 2 < r then f + 1
         else if even f then f else f + 1)"

text \<open>
  \<open>a[k] = x\<close> for a \<open>Float32Array\<close> \<open>a\<close> stores the single-precision number nearest to
  \<open>x\<close>, a tie going to the even significand, and a later read returns that number. A
  single-precision number has a significand of 24 bits and an exponent of at least
  \<open>-126\<close>: with \<open>2 ^ e \<le> |x| < 2 ^ (e + 1)\<close> the neighbours of \<open>x\<close> are the multiples of
  \<open>2 ^ (e - 23)\<close>, and below \<open>2 ^ (-126)\<close> the multiples of \<open>2 ^ (-149)\<close>. (A number whose
  rounding exceeds the largest single-precision number is stored as an infinity, which is
  outside this embedding; the second embedding has it.)
\<close>

definition f32_exponent :: "real \<Rightarrow> int" where
  "f32_exponent x = max (- 126) \<lfloor>log 2 \<bar>x\<bar>\<rfloor>"

definition fround :: "real \<Rightarrow> real" where
  "fround x =
     (if x = 0 then 0
      else let quantum = pow2 (f32_exponent x - 23)
           in of_int (round_half_even (x / quantum)) * quantum)"

subsection \<open>The loop body\<close>

text \<open>
  Lines 100 to 112, for one component \<open>v\<close> of \<open>temp_q_rot\<close>:
  \<^verbatim>\<open>
  const two_i = i + i;
  let qx = ((v % two_i) + two_i) % two_i;
  qx -= i;
  qx = Math.abs(qx);
  \<close>
  The source writes the three statements out once per component.
\<close>

definition mod_fold_abs :: "real \<Rightarrow> real \<Rightarrow> real" where
  "mod_fold_abs v i =
     (let two_i = i + i;
          qx = js_rem (js_rem v two_i + two_i) two_i;
          qx = qx - i
      in \<bar>qx\<bar>)"

text \<open>
  One execution of the body of \<open>while (i > 0.05)\<close>, lines 87 to 121. Every assignment to
  an element of \<open>temp_q\<close> or \<open>temp_q_rot\<close> is a store into a \<open>Float32Array\<close>. The state of the loop
  is the module-level buffers and the local variables \<open>d\<close> and \<open>i\<close>, in this order;
  \<open>scale\<close>, \<open>rot\<close>, \<open>pulse\<close> and \<open>t\<close> do not change.
\<close>

type_synonym loop_state = "globals \<times> real \<times> real"

definition loop_body :: "real \<Rightarrow> real \<Rightarrow> real \<Rightarrow> real \<Rightarrow> loop_state \<Rightarrow> loop_state" where
  "loop_body scale rot pulse t = (\<lambda>(g, d, i).
     let angle = rot + sin (t * 1.0 + ix1 (temp_q g) * 5.0) * pulse;
         c = cos angle;
         s = sin angle;
         g = g\<lparr>temp_q_rot := (temp_q_rot g)\<lparr>ix0 := fround (ix0 (temp_q g) * c + ix2 (temp_q g) * s)\<rparr>\<rparr>;
         g = g\<lparr>temp_q_rot := (temp_q_rot g)\<lparr>ix1 := fround (ix1 (temp_q g))\<rparr>\<rparr>;
         g = g\<lparr>temp_q_rot := (temp_q_rot g)\<lparr>ix2 := fround (- ix0 (temp_q g) * s + ix2 (temp_q g) * c)\<rparr>\<rparr>;
         qx = mod_fold_abs (ix0 (temp_q_rot g)) i;
         qy = mod_fold_abs (ix1 (temp_q_rot g)) i;
         qz = mod_fold_abs (ix2 (temp_q_rot g)) i;
         i9 = i * 0.9;
         g = g\<lparr>temp_q := (temp_q g)\<lparr>ix0 := fround (i9 - qx)\<rparr>\<rparr>;
         g = g\<lparr>temp_q := (temp_q g)\<lparr>ix1 := fround (i9 - qy)\<rparr>\<rparr>;
         g = g\<lparr>temp_q := (temp_q g)\<lparr>ix2 := fround (i9 - qz)\<rparr>\<rparr>;
         d = max d (min (ix0 (temp_q g)) (min (ix1 (temp_q g)) (ix2 (temp_q g))));
         i = i * scale
     in (g, d, i))"

subsection \<open>The loop and the evaluator\<close>

text \<open>
  The loop condition \<open>i > 0.05\<close>.
\<close>

definition loop_cond :: "loop_state \<Rightarrow> bool" where
  "loop_cond = (\<lambda>(g, d, i). i > 0.05)"

text \<open>
  \<open>while (i > 0.05) { body }\<close>. The loop has no other exit and no bound on the number of
  passes, so it is a partial function: \<open>None\<close> is a loop that never ends.
\<close>

partial_function (option) while_loop ::
  "real \<Rightarrow> real \<Rightarrow> real \<Rightarrow> real \<Rightarrow> loop_state \<Rightarrow> loop_state option" where
  "while_loop scale rot pulse t st =
     (if loop_cond st
      then while_loop scale rot pulse t (loop_body scale rot pulse t st)
      else Some st)"

text \<open>
  \<open>getPlanet1Distance(p_vec, uniforms, t)\<close>, lines 73 to 124. The first argument is the
  module-level state at the call; the result is the returned \<open>d\<close> with the module-level
  state the call leaves behind, or \<open>None\<close> when the call never returns.
\<close>

definition getPlanet1Distance ::
  "globals \<Rightarrow> buf3 \<Rightarrow> uniforms \<Rightarrow> real \<Rightarrow> (real \<times> globals) option" where
  "getPlanet1Distance g p_vec uniforms t =
     (let scale = nullish (uniforms ''slider_fractalScale'') 0.37;
          rot = nullish (uniforms ''slider_fractalRotation'') 1.09;
          pulse = nullish (uniforms ''slider_fractalPulseStrength'') 0.0;
          g = g\<lparr>temp_q := (temp_q g)\<lparr>ix0 := fround (ix0 p_vec)\<rparr>\<rparr>;
          g = g\<lparr>temp_q := (temp_q g)\<lparr>ix1 := fround (ix1 p_vec)\<rparr>\<rparr>;
          g = g\<lparr>temp_q := (temp_q g)\<lparr>ix2 := fround (ix2 p_vec)\<rparr>\<rparr>;
          d = - ix1 (temp_q g);
          i = 58.0
      in map_option (\<lambda>(g, d, i). (d, g)) (while_loop scale rot pulse t (g, d, i)))"

text \<open>
  The contents of \<open>temp_q\<close> after the three stores of lines 79 to 81.
\<close>

definition fround3 :: "buf3 \<Rightarrow> buf3" where
  "fround3 p_vec = \<lparr>ix0 = fround (ix0 p_vec), ix1 = fround (ix1 p_vec), ix2 = fround (ix2 p_vec)\<rparr>"

section \<open>The evaluator in IEEE arithmetic\<close>

text \<open>
  The second embedding of lines 73 to 124, with the numbers as the engine has them.
  Every definition of this section carries the suffix \<open>_ieee\<close> where its name is taken by
  the first embedding.
\<close>

subsection \<open>Numbers\<close>

text \<open>
  A JavaScript number: a finite value, \<open>+Infinity\<close>, \<open>-Infinity\<close> or \<open>NaN\<close>. The finite
  values that a program can hold are the doubles, the fixed points of \<open>fl64\<close> below; the
  two zeros are one value (the evaluator has no division and no other operation that
  tells \<open>-0\<close> from \<open>+0\<close>).
\<close>

datatype jsnum = Fin real | PInf | NInf | NaN

text \<open>
  Rounding to the nearest number of a binary format, a tie going to the even significand:
  a significand of \<open>m + 1\<close> bits, exponents from \<open>emin\<close> to \<open>emax\<close>. With
  \<open>2 ^ e \<le> |x| < 2 ^ (e + 1)\<close> the neighbours of \<open>x\<close> are the multiples of \<open>2 ^ (e - m)\<close>,
  and below \<open>2 ^ emin\<close> the multiples of \<open>2 ^ (emin - m)\<close> (the subnormal numbers). A
  rounding that reaches \<open>2 ^ (emax + 1)\<close> is an infinity.
\<close>

definition round_to :: "int \<Rightarrow> int \<Rightarrow> int \<Rightarrow> real \<Rightarrow> jsnum" where
  "round_to m emin emax x =
     (if x = 0 then Fin 0
      else let e = max emin \<lfloor>log 2 \<bar>x\<bar>\<rfloor>;
               quantum = pow2 (e - m);
               y = of_int (round_half_even (x / quantum)) * quantum
           in if pow2 (emax + 1) \<le> \<bar>y\<bar> then (if 0 < x then PInf else NInf) else Fin y)"

text \<open>
  The double nearest to a real (53 bits, exponents from \<open>-1022\<close> to \<open>1023\<close>), and the
  single-precision number nearest to it (24 bits, exponents from \<open>-126\<close> to \<open>127\<close>).
\<close>

definition fl64 :: "real \<Rightarrow> jsnum" where
  "fl64 = round_to 52 (- 1022) 1023"

definition fl32 :: "real \<Rightarrow> jsnum" where
  "fl32 = round_to 23 (- 126) 127"

text \<open>
  A numeric literal of the source, such as \<open>0.05\<close> or \<open>58.0\<close>: the double nearest to the
  decimal written.
\<close>

definition lit :: "real \<Rightarrow> jsnum" where
  "lit x = fl64 x"

text \<open>
  A number that a program can hold: a finite one is a double.
\<close>

definition is_double :: "jsnum \<Rightarrow> bool" where
  "is_double a = (case a of Fin x \<Rightarrow> fl64 x = Fin x | _ \<Rightarrow> True)"

subsection \<open>Operators\<close>

text \<open>
  Unary minus, \<open>a + b\<close>, \<open>a - b\<close> and \<open>a * b\<close> on numbers: the exact result rounded to a
  double; \<open>NaN\<close> when an operand is \<open>NaN\<close>, for \<open>Infinity - Infinity\<close> and for
  \<open>0 * Infinity\<close>.
\<close>

fun js_neg :: "jsnum \<Rightarrow> jsnum" where
  "js_neg (Fin x) = Fin (- x)"
| "js_neg PInf = NInf"
| "js_neg NInf = PInf"
| "js_neg NaN = NaN"

fun js_add :: "jsnum \<Rightarrow> jsnum \<Rightarrow> jsnum" where
  "js_add NaN b = NaN"
| "js_add a NaN = NaN"
| "js_add PInf NInf = NaN"
| "js_add NInf PInf = NaN"
| "js_add PInf b = PInf"
| "js_add a PInf = PInf"
| "js_add NInf b = NInf"
| "js_add a NInf = NInf"
| "js_add (Fin x) (Fin y) = fl64 (x + y)"

definition js_sub :: "jsnum \<Rightarrow> jsnum \<Rightarrow> jsnum" where
  "js_sub a b = js_add a (js_neg b)"

fun js_mul :: "jsnum \<Rightarrow> jsnum \<Rightarrow> jsnum" where
  "js_mul NaN b = NaN"
| "js_mul a NaN = NaN"
| "js_mul (Fin x) (Fin y) = fl64 (x * y)"
| "js_mul (Fin x) PInf = (if x = 0 then NaN else if 0 < x then PInf else NInf)"
| "js_mul (Fin x) NInf = (if x = 0 then NaN else if 0 < x then NInf else PInf)"
| "js_mul PInf (Fin y) = (if y = 0 then NaN else if 0 < y then PInf else NInf)"
| "js_mul NInf (Fin y) = (if y = 0 then NaN else if 0 < y then NInf else PInf)"
| "js_mul PInf PInf = PInf"
| "js_mul PInf NInf = NInf"
| "js_mul NInf PInf = NInf"
| "js_mul NInf NInf = PInf"

text \<open>
  The remainder operator \<open>a % b\<close>: \<open>NaN\<close> when \<open>a\<close> is not finite, when \<open>b\<close> is zero or
  \<open>NaN\<close>; \<open>a\<close> when \<open>b\<close> is an infinity; otherwise \<^const>\<open>js_rem\<close>, the remainder of the
  truncated division, which two doubles give without rounding.
\<close>

fun js_mod :: "jsnum \<Rightarrow> jsnum \<Rightarrow> jsnum" where
  "js_mod (Fin x) (Fin y) = (if y = 0 then NaN else Fin (js_rem x y))"
| "js_mod (Fin x) PInf = Fin x"
| "js_mod (Fin x) NInf = Fin x"
| "js_mod a b = NaN"

text \<open>
  \<open>Math.abs\<close>.
\<close>

fun js_abs :: "jsnum \<Rightarrow> jsnum" where
  "js_abs (Fin x) = Fin \<bar>x\<bar>"
| "js_abs PInf = PInf"
| "js_abs NInf = PInf"
| "js_abs NaN = NaN"

text \<open>
  The comparisons \<open>a > b\<close> and \<open>a >= b\<close>: false when an operand is \<open>NaN\<close>.
\<close>

fun js_gt :: "jsnum \<Rightarrow> jsnum \<Rightarrow> bool" where
  "js_gt NaN b = False"
| "js_gt a NaN = False"
| "js_gt (Fin x) (Fin y) = (y < x)"
| "js_gt PInf PInf = False"
| "js_gt PInf b = True"
| "js_gt a PInf = False"
| "js_gt NInf b = False"
| "js_gt a NInf = True"

definition js_ge :: "jsnum \<Rightarrow> jsnum \<Rightarrow> bool" where
  "js_ge a b = (js_gt a b \<or> (a = b \<and> a \<noteq> NaN))"

text \<open>
  \<open>Math.max\<close> and \<open>Math.min\<close> of two numbers: \<open>NaN\<close> when an argument is \<open>NaN\<close>. The
  source's \<open>Math.min(a, b, c)\<close> is \<open>math_min a (math_min b c)\<close>.
\<close>

definition math_max :: "jsnum \<Rightarrow> jsnum \<Rightarrow> jsnum" where
  "math_max a b = (if a = NaN \<or> b = NaN then NaN else if js_gt b a then b else a)"

definition math_min :: "jsnum \<Rightarrow> jsnum \<Rightarrow> jsnum" where
  "math_min a b = (if a = NaN \<or> b = NaN then NaN else if js_gt a b then b else a)"

text \<open>
  \<open>Math.sin\<close> and \<open>Math.cos\<close>. The language fixes them at the arguments \<open>NaN\<close> and
  the infinities (the result is \<open>NaN\<close>) and at zero (\<open>sin 0 = 0\<close>, \<open>cos 0 = 1\<close>); elsewhere the
  result is "an implementation-approximated number", so the two functions of the host
  are parameters of the model, and their values are taken as numbers (rounded to
  doubles). With \<open>host_sin = sin\<close> and \<open>host_cos = cos\<close> the host rounds correctly.
\<close>

record host =
  host_sin :: "real \<Rightarrow> real"
  host_cos :: "real \<Rightarrow> real"

fun math_sin :: "host \<Rightarrow> jsnum \<Rightarrow> jsnum" where
  "math_sin h (Fin x) = (if x = 0 then Fin 0 else fl64 (host_sin h x))"
| "math_sin h a = NaN"

fun math_cos :: "host \<Rightarrow> jsnum \<Rightarrow> jsnum" where
  "math_cos h (Fin x) = (if x = 0 then Fin 1 else fl64 (host_cos h x))"
| "math_cos h a = NaN"

text \<open>
  \<open>a[k] = x\<close> for a \<open>Float32Array\<close> \<open>a\<close>, followed by a read of \<open>a[k]\<close>: a finite \<open>x\<close> is
  rounded to single precision, to an infinity when it is beyond the largest
  single-precision number; an infinity and \<open>NaN\<close> are stored as they are.
\<close>

fun f32_store :: "jsnum \<Rightarrow> jsnum" where
  "f32_store (Fin x) = fl32 x"
| "f32_store a = a"

subsection \<open>Data\<close>

text \<open>
  A three-element numeric array, as \<^typ>\<open>buf3\<close> above: the two \<open>Float32Array\<close>s and the
  argument \<open>p_vec\<close>. (An element of \<open>p_vec\<close> that is missing reads as \<open>undefined\<close> and is
  stored as \<open>NaN\<close>; it is the element \<open>NaN\<close> here.) The module-level state and the
  \<open>uniforms\<close> object are as above, over these numbers.
\<close>

record f32buf3 =
  el0 :: jsnum
  el1 :: jsnum
  el2 :: jsnum

record js_globals =
  temp_q_ieee :: f32buf3
  temp_q_rot_ieee :: f32buf3

type_synonym js_uniforms = "string \<rightharpoonup> jsnum"

definition nullish_ieee :: "jsnum option \<Rightarrow> jsnum \<Rightarrow> jsnum" where
  "nullish_ieee a b = (case a of None \<Rightarrow> b | Some v \<Rightarrow> v)"

subsection \<open>The loop body, the loop and the evaluator\<close>

text \<open>
  Lines 100 to 112 for one component \<open>v\<close> of \<open>temp_q_rot\<close>, with \<open>two_i\<close> computed once
  (line 98):
  \<^verbatim>\<open>
  let qx = ((v % two_i) + two_i) % two_i;
  qx -= i;
  qx = Math.abs(qx);
  \<close>
\<close>

definition mod_fold_abs_ieee :: "jsnum \<Rightarrow> jsnum \<Rightarrow> jsnum \<Rightarrow> jsnum" where
  "mod_fold_abs_ieee v two_i i =
     (let qx = js_mod (js_add (js_mod v two_i) two_i) two_i;
          qx = js_sub qx i
      in js_abs qx)"

text \<open>
  One execution of the body of \<open>while (i > 0.05)\<close>, lines 87 to 121, statement by
  statement. \<open>-temp_q[0] * s\<close> is the product of the negated element and \<open>s\<close>.
\<close>

type_synonym js_loop_state = "js_globals \<times> jsnum \<times> jsnum"

definition loop_body_ieee ::
  "host \<Rightarrow> jsnum \<Rightarrow> jsnum \<Rightarrow> jsnum \<Rightarrow> jsnum \<Rightarrow> js_loop_state \<Rightarrow> js_loop_state" where
  "loop_body_ieee h scale rot pulse t = (\<lambda>(g, d, i).
     let angle = js_add rot
                   (js_mul (math_sin h (js_add (js_mul t (lit 1.0))
                                               (js_mul (el1 (temp_q_ieee g)) (lit 5.0))))
                           pulse);
         c = math_cos h angle;
         s = math_sin h angle;
         g = g\<lparr>temp_q_rot_ieee := (temp_q_rot_ieee g)\<lparr>el0 :=
               f32_store (js_add (js_mul (el0 (temp_q_ieee g)) c) (js_mul (el2 (temp_q_ieee g)) s))\<rparr>\<rparr>;
         g = g\<lparr>temp_q_rot_ieee := (temp_q_rot_ieee g)\<lparr>el1 := f32_store (el1 (temp_q_ieee g))\<rparr>\<rparr>;
         g = g\<lparr>temp_q_rot_ieee := (temp_q_rot_ieee g)\<lparr>el2 :=
               f32_store (js_add (js_mul (js_neg (el0 (temp_q_ieee g))) s) (js_mul (el2 (temp_q_ieee g)) c))\<rparr>\<rparr>;
         two_i = js_add i i;
         qx = mod_fold_abs_ieee (el0 (temp_q_rot_ieee g)) two_i i;
         qy = mod_fold_abs_ieee (el1 (temp_q_rot_ieee g)) two_i i;
         qz = mod_fold_abs_ieee (el2 (temp_q_rot_ieee g)) two_i i;
         i9 = js_mul i (lit 0.9);
         g = g\<lparr>temp_q_ieee := (temp_q_ieee g)\<lparr>el0 := f32_store (js_sub i9 qx)\<rparr>\<rparr>;
         g = g\<lparr>temp_q_ieee := (temp_q_ieee g)\<lparr>el1 := f32_store (js_sub i9 qy)\<rparr>\<rparr>;
         g = g\<lparr>temp_q_ieee := (temp_q_ieee g)\<lparr>el2 := f32_store (js_sub i9 qz)\<rparr>\<rparr>;
         d = math_max d (math_min (el0 (temp_q_ieee g))
                           (math_min (el1 (temp_q_ieee g)) (el2 (temp_q_ieee g))));
         i = js_mul i scale
     in (g, d, i))"

text \<open>
  The loop condition \<open>i > 0.05\<close>, and the loop: \<open>None\<close> is a loop that never ends.
\<close>

definition loop_cond_ieee :: "js_loop_state \<Rightarrow> bool" where
  "loop_cond_ieee = (\<lambda>(g, d, i). js_gt i (lit 0.05))"

partial_function (option) while_loop_ieee ::
  "host \<Rightarrow> jsnum \<Rightarrow> jsnum \<Rightarrow> jsnum \<Rightarrow> jsnum \<Rightarrow> js_loop_state \<Rightarrow> js_loop_state option" where
  "while_loop_ieee h scale rot pulse t st =
     (if loop_cond_ieee st
      then while_loop_ieee h scale rot pulse t (loop_body_ieee h scale rot pulse t st)
      else Some st)"

text \<open>
  \<open>getPlanet1Distance(p_vec, uniforms, t)\<close>, lines 73 to 124, for the host \<open>h\<close> and the
  module-level state \<open>g\<close> at the call: the returned \<open>d\<close> with the module-level state the
  call leaves behind, or \<open>None\<close> when the call never returns.
\<close>

definition getPlanet1Distance_ieee ::
  "host \<Rightarrow> js_globals \<Rightarrow> f32buf3 \<Rightarrow> js_uniforms \<Rightarrow> jsnum \<Rightarrow> (jsnum \<times> js_globals) option" where
  "getPlanet1Distance_ieee h g p_vec uniforms t =
     (let scale = nullish_ieee (uniforms ''slider_fractalScale'') (lit 0.37);
          rot = nullish_ieee (uniforms ''slider_fractalRotation'') (lit 1.09);
          pulse = nullish_ieee (uniforms ''slider_fractalPulseStrength'') (lit 0.0);
          g = g\<lparr>temp_q_ieee := (temp_q_ieee g)\<lparr>el0 := f32_store (el0 p_vec)\<rparr>\<rparr>;
          g = g\<lparr>temp_q_ieee := (temp_q_ieee g)\<lparr>el1 := f32_store (el1 p_vec)\<rparr>\<rparr>;
          g = g\<lparr>temp_q_ieee := (temp_q_ieee g)\<lparr>el2 := f32_store (el2 p_vec)\<rparr>\<rparr>;
          d = js_neg (el1 (temp_q_ieee g));
          i = lit 58.0
      in map_option (\<lambda>(g, d, i). (d, g)) (while_loop_ieee h scale rot pulse t (g, d, i)))"

text \<open>
  The contents of \<open>temp_q\<close> after the three stores of lines 79 to 81.
\<close>

definition f32_store3 :: "f32buf3 \<Rightarrow> f32buf3" where
  "f32_store3 p_vec =
     \<lparr>el0 = f32_store (el0 p_vec), el1 = f32_store (el1 p_vec), el2 = f32_store (el2 p_vec)\<rparr>"

section \<open>The iteration as the specification words it\<close>

text \<open>
  The algorithm of the specification's section 4.1, written down from its words and
  not from the source, to compare the two. The specification's \<open>float\<close> is a number as
  above, and its operations are the double operations. A point is a triple
  \<open>(x, y, z)\<close>; the fractal parameters are the record \<open>FractalParams\<close> (its fields carry
  the prefix \<open>fp_\<close>).
\<close>

type_synonym vec3 = "jsnum \<times> jsnum \<times> jsnum"

record FractalParams =
  fp_scale :: jsnum
  fp_rotation :: jsnum
  fp_pulseStrength :: jsnum

text \<open>
  "True (non-negative) modulo" of \<open>v\<close> by \<open>m\<close>, from a remainder operator whose result
  has the sign of the dividend: \<open>((v % m) + m) % m\<close>. Over the reals this is the
  remainder of the floored division, in \<open>[0, m)\<close> for a positive \<open>m\<close>; in double arithmetic
  the inner sum is rounded.
\<close>

definition spec_true_mod :: "jsnum \<Rightarrow> jsnum \<Rightarrow> jsnum" where
  "spec_true_mod v m = js_mod (js_add (js_mod v m) m) m"

text \<open>
  "Rotate \<open>q\<close> about the Y axis by \<open>angle\<close> (standard 2D rotation applied to the X/Z pair;
  Y unchanged)": the rotation matrix about the Y axis.
\<close>

definition spec_rotateY :: "host \<Rightarrow> jsnum \<Rightarrow> vec3 \<Rightarrow> vec3" where
  "spec_rotateY h angle = (\<lambda>(x, y, z).
     (js_add (js_mul x (math_cos h angle)) (js_mul z (math_sin h angle)),
      y,
      js_add (js_mul (js_neg x) (math_sin h angle)) (js_mul z (math_cos h angle))))"

text \<open>
  "Fold each rotated component into \<open>[0, 2i)\<close> via true (non-negative) modulo, subtract
  \<open>i\<close> to re-center into \<open>[-i, i)\<close>, then take absolute value."
\<close>

definition spec_fold :: "jsnum \<Rightarrow> jsnum \<Rightarrow> jsnum" where
  "spec_fold i v = js_abs (js_sub (spec_true_mod v (js_mul (lit 2) i)) i)"

text \<open>
  Steps 2a to 2f, on the working point \<open>q\<close>, the accumulator \<open>d\<close> and the lattice size
  \<open>i\<close>. The specification does not say how the components of its vectors are
  represented: every component that is put into the rotated point or into the working
  point goes through \<open>store\<close>. With \<open>store\<close> the identity the vectors hold doubles, as
  \<open>d\<close> and \<open>i\<close> do; with \<^const>\<open>f32_store\<close> they hold single-precision numbers.
\<close>

definition spec_step ::
  "host \<Rightarrow> (jsnum \<Rightarrow> jsnum) \<Rightarrow> FractalParams \<Rightarrow> jsnum
     \<Rightarrow> vec3 \<times> jsnum \<times> jsnum \<Rightarrow> vec3 \<times> jsnum \<times> jsnum" where
  "spec_step h store params t = (\<lambda>((qx, qy, qz), d, i).
     let angle = js_add (fp_rotation params)
                   (js_mul (math_sin h (js_add t (js_mul qy (lit 5)))) (fp_pulseStrength params));
         (rx, ry, rz) = spec_rotateY h angle (qx, qy, qz);
         (rx, ry, rz) = (store rx, store ry, store rz);
         (qx, qy, qz) = (store (js_sub (js_mul (lit 0.9) i) (spec_fold i rx)),
                         store (js_sub (js_mul (lit 0.9) i) (spec_fold i ry)),
                         store (js_sub (js_mul (lit 0.9) i) (spec_fold i rz)));
         d = math_max d (math_min qx (math_min qy qz));
         i = js_mul i (fp_scale params)
     in ((qx, qy, qz), d, i))"

text \<open>
  Step 2, "while \<open>i > 0.05\<close>", around a step.
\<close>

partial_function (option) spec_while ::
  "(vec3 \<times> jsnum \<times> jsnum \<Rightarrow> vec3 \<times> jsnum \<times> jsnum) \<Rightarrow> vec3 \<times> jsnum \<times> jsnum
     \<Rightarrow> (vec3 \<times> jsnum \<times> jsnum) option" where
  "spec_while step st =
     (if js_gt (snd (snd st)) (lit 0.05) then spec_while step (step st) else Some st)"

text \<open>
  Steps 1 and 3: start from \<open>q = p\<close>, \<open>d = -p.y\<close> and \<open>i = 58.0\<close>, the point being
  represented as the working point is; return \<open>d\<close>. With \<open>store\<close> the identity this is the
  algorithm as the specification words it.
\<close>

definition spec_DistanceField ::
  "host \<Rightarrow> (jsnum \<Rightarrow> jsnum) \<Rightarrow> vec3 \<Rightarrow> FractalParams \<Rightarrow> jsnum \<Rightarrow> jsnum option" where
  "spec_DistanceField h store = (\<lambda>(px, py, pz) params t.
     map_option (\<lambda>(q, d, i). d)
       (spec_while (spec_step h store params t)
          ((store px, store py, store pz), js_neg (store py), lit 58.0)))"

text \<open>
  The parameters a uniforms object resolves to: "missing/undefined fractal parameters
  fall back to fixed defaults (\<open>scale=0.37, rotation=1.09, pulseStrength=0.0\<close>)".
\<close>

definition resolved_params :: "js_uniforms \<Rightarrow> FractalParams" where
  "resolved_params uniforms =
     \<lparr>fp_scale = nullish_ieee (uniforms ''slider_fractalScale'') (lit 0.37),
      fp_rotation = nullish_ieee (uniforms ''slider_fractalRotation'') (lit 1.09),
      fp_pulseStrength = nullish_ieee (uniforms ''slider_fractalPulseStrength'') (lit 0.0)\<rparr>"

text \<open>
  The state of the specification's loop that a state of the source's loop stands for: the
  working point \<open>q\<close> is the contents of \<open>temp_q\<close>.
\<close>

definition working_state :: "js_loop_state \<Rightarrow> vec3 \<times> jsnum \<times> jsnum" where
  "working_state = (\<lambda>(g, d, i).
     ((el0 (temp_q_ieee g), el1 (temp_q_ieee g), el2 (temp_q_ieee g)), d, i))"

section \<open>The modulation tables of \<open>src/hooks/useAppStore.ts\<close>\<close>

text \<open>
  An element of \<open>defaultSoundConfig.modulations\<close>. Sources and targets are the string
  literals of the source (the types \<open>ModulationSource\<close> and \<open>ModulationTarget\<close> are
  declared in \<open>../types\<close>). The field \<open>id\<close> is written \<open>id'\<close>.
\<close>

record Modulation =
  id' :: string
  enabled :: bool
  source :: string
  target :: string
  amount :: real

text \<open>
  The field \<open>modulations\<close> of \<open>defaultSoundConfig\<close>, lines 170 to 184.
\<close>

definition defaultSoundConfig_modulations :: "Modulation list" where
  "defaultSoundConfig_modulations =
     [\<lparr>id' = ''1'', enabled = True, source = ''speed'', target = ''drone.filter'', amount = 0.4\<rparr>,
      \<lparr>id' = ''5'', enabled = True, source = ''altitude'', target = ''atmosphere.gain'', amount = 0.15\<rparr>,
      \<lparr>id' = ''6'', enabled = True, source = ''altitude'', target = ''drone.pitch'', amount = - 0.1\<rparr>,
      \<lparr>id' = ''new1'', enabled = True, source = ''pitch'', target = ''arp.direction'', amount = 1.5\<rparr>,
      \<lparr>id' = ''new2'', enabled = True, source = ''speed'', target = ''arp.speed'', amount = 0.8\<rparr>,
      \<lparr>id' = ''new3'', enabled = True, source = ''pitch'', target = ''arp.octaves'', amount = 1.0\<rparr>]"

text \<open>
  \<open>MOD_RANGES\<close>, from line 188. The source file ends inside this object literal, after
  the entry for \<open>'arp.octaves'\<close>; the entries that follow are the parameter \<open>rest\<close>.
  The table is the list of the literal's entries in their order.
\<close>

definition MOD_RANGES :: "(string \<times> real) list \<Rightarrow> (string \<times> real) list" where
  "MOD_RANGES rest =
     [(''masterVolume'', 1.0),
      (''drone.gain'', 1.0), (''drone.filter'', 2000), (''drone.pitch'', 24),
      (''atmosphere.gain'', 1.0),
      (''arp.gain'', 1.0), (''arp.speed'', 3.0), (''arp.filter'', 4000), (''arp.octaves'', 3)]
     @ rest"

text \<open>
  A target has an entry when it is a key of the object literal.
\<close>

definition has_range :: "(string \<times> real) list \<Rightarrow> string \<Rightarrow> bool" where
  "has_range table tgt = (tgt \<in> fst ` set table)"

text \<open>
  The one discrete target, the direction mode: in the source's bindings it is
  \<open>'arp.direction'\<close>. Every other target is continuous.
\<close>

definition continuous_target :: "string \<Rightarrow> bool" where
  "continuous_target tgt = (tgt \<noteq> ''arp.direction'')"

text \<open>
  The numeric fields of \<open>defaultSoundConfig\<close>, lines 129 to 168, each under its path in
  the object (the spelling of the modulation targets).
\<close>

definition defaultSoundConfig_numeric :: "(string \<times> real) list" where
  "defaultSoundConfig_numeric =
     [(''masterVolume'', 0.5),
      (''reverb.mix'', 0.5), (''reverb.decay'', 5.0), (''reverb.tone'', 2000),
      (''drone.gain'', 0.4), (''drone.filter'', 100), (''drone.pitch'', 0),
      (''atmosphere.gain'', 0.2),
      (''melody.gain'', 0.3), (''melody.density'', 0.4),
      (''arp.gain'', 0.25), (''arp.speed'', 1.0), (''arp.octaves'', 2), (''arp.filter'', 600),
      (''rhythm.gain'', 0.4), (''rhythm.bpm'', 60), (''rhythm.filter'', 150)]"

section \<open>The modulation router\<close>

text \<open>
  The router is not part of \<open>src/hooks/useAppStore.ts\<close>, which ends at line 192. The
  definitions of this section follow the specification's section 4.3.
\<close>

text \<open>
  Modelled from the spec: the values of the one discrete target, the direction mode
  ("ascending", "descending", and the default bidirectional mode); the source file has
  no type for them.
\<close>

datatype direction = Ascending | Descending | Bidirectional

text \<open>
  Modelled from the spec: \<open>ParameterDefaults\<close> and \<open>ResolvedParameterSet\<close>, a value for
  every continuous target and the direction mode; the source file has no type for them.
\<close>

record ParameterSet =
  numeric :: "string \<Rightarrow> real"
  direction_mode :: direction

text \<open>
  Modelled from the spec: the contribution of one binding to its target, which the source
  file does not contain. "\<open>contribution = normalized[binding.source] * binding.amount *
  RangeTable[binding.target]\<close>. If \<open>RangeTable\<close> has no entry, contribution is \<open>0\<close>. If
  \<open>binding.source\<close> has no normalized value, contribution is \<open>0\<close>."
\<close>

definition contribution :: "(string \<rightharpoonup> real) \<Rightarrow> (string \<rightharpoonup> real) \<Rightarrow> Modulation \<Rightarrow> real" where
  "contribution ranges normalized b =
     (case ranges (target b) of
        None \<Rightarrow> 0
      | Some full_scale \<Rightarrow>
          (case normalized (source b) of
             None \<Rightarrow> 0
           | Some v \<Rightarrow> v * amount b * full_scale))"

text \<open>
  Modelled from the spec: the three-way threshold of step 5, which the source file does
  not contain. "Above a positive threshold: ascending mode, below the negated threshold:
  descending mode, otherwise: a default bidirectional mode." A source without a
  normalized value counts as \<open>0\<close>.
\<close>

definition threshold_mode :: "real \<Rightarrow> (string \<rightharpoonup> real) \<Rightarrow> Modulation \<Rightarrow> direction" where
  "threshold_mode thr normalized b =
     (let v = (case normalized (source b) of None \<Rightarrow> 0 | Some v \<Rightarrow> v)
      in if v > thr then Ascending else if v < - thr then Descending else Bidirectional)"

text \<open>
  Modelled from the spec: \<open>ModulationRouter.resolve\<close>, which the source file does not
  contain. Steps 1 to 4 for a continuous target: the base value, plus the sum of the
  contributions of the enabled bindings with that target, clamped to the target's legal
  domain. The specification gives the legal domains by example only, so the clamp of
  each target is the parameter \<open>legal\<close>. Step 5 for the direction mode: the last enabled
  binding with that target decides; when there is none the base value stays (step 1).
  Step 6: a binding that is not enabled is skipped. (\<open>numeric\<close> at the name of the
  discrete target is not a parameter of the router; it keeps its base value.)
\<close>

definition resolve ::
  "(string \<Rightarrow> real \<Rightarrow> real) \<Rightarrow> real \<Rightarrow> (string \<rightharpoonup> real)
     \<Rightarrow> Modulation list \<Rightarrow> (string \<rightharpoonup> real) \<Rightarrow> ParameterSet \<Rightarrow> ParameterSet" where
  "resolve legal thr ranges bindings normalized baseConfig =
     \<lparr>numeric = (\<lambda>tgt.
        if continuous_target tgt
        then legal tgt (numeric baseConfig tgt
          + sum_list (map (contribution ranges normalized)
              (filter (\<lambda>b. enabled b \<and> target b = tgt) bindings)))
        else numeric baseConfig tgt),
      direction_mode =
        (case filter (\<lambda>b. enabled b \<and> \<not> continuous_target (target b)) bindings of
           [] \<Rightarrow> direction_mode baseConfig
         | b # bs \<Rightarrow> threshold_mode thr normalized (last (b # bs)))\<rparr>"

text \<open>
  Modelled from the spec: the one legal domain the specification gives in numbers,
  "gains to \<open>[0,1]\<close>", for the targets of the source's table that are the gain of a
  voice; the other targets are left as they are.
\<close>

definition clamp_gains :: "string \<Rightarrow> real \<Rightarrow> real" where
  "clamp_gains tgt v =
     (if tgt \<in> {''drone.gain'', ''atmosphere.gain'', ''arp.gain''}
      then max 0 (min 1 v) else v)"

text \<open>
  A base configuration for the router, made of the values of \<open>defaultSoundConfig\<close>: a
  continuous target has the value of the field at its path (and \<open>0\<close> when there is no
  such numeric field); the direction \<open>'updown'\<close> of the source is the bidirectional mode.
\<close>

definition defaultSoundConfig_base :: ParameterSet where
  "defaultSoundConfig_base =
     \<lparr>numeric = (\<lambda>tgt. case map_of defaultSoundConfig_numeric tgt of None \<Rightarrow> 0 | Some v \<Rightarrow> v),
      direction_mode = Bidirectional\<rparr>"

section \<open>The fold step\<close>

lemma trunc_abs: "\<bar>x - of_int (trunc x)\<bar> < 1"
  unfolding trunc_def by (simp, linarith)

lemma trunc_nonneg: "0 \<le> x \<Longrightarrow> 0 \<le> x - of_int (trunc x)"
  unfolding trunc_def by simp

lemma trunc_nonpos: "x \<le> 0 \<Longrightarrow> x - of_int (trunc x) \<le> 0"
  unfolding trunc_def by (cases "x = 0") simp_all

lemma js_rem_eq:
  assumes "0 < b"
  shows "js_rem a b = b * (a / b - of_int (trunc (a / b)))"
  using assms by (simp add: js_rem_def right_diff_distrib)

lemma js_rem_bounds:
  assumes "0 < b"
  shows "\<bar>js_rem a b\<bar> < b" and "0 \<le> a \<Longrightarrow> 0 \<le> js_rem a b" and "a \<le> 0 \<Longrightarrow> js_rem a b \<le> 0"
proof -
  let ?r = "a / b - of_int (trunc (a / b))"
  have "\<bar>b * ?r\<bar> = b * \<bar>?r\<bar>"
    using assms by (simp add: abs_mult)
  also have "\<dots> < b * 1"
    using assms trunc_abs [of "a / b"] by (simp only: mult_less_cancel_left_pos)
  finally show "\<bar>js_rem a b\<bar> < b"
    using assms by (simp add: js_rem_eq)
  show "0 \<le> js_rem a b" if "0 \<le> a"
  proof -
    have "0 \<le> a / b" using that assms by simp
    then have "0 \<le> ?r" by (rule trunc_nonneg)
    then have "0 \<le> b * ?r" using assms by simp
    then show ?thesis using assms by (simp only: js_rem_eq)
  qed
  show "js_rem a b \<le> 0" if "a \<le> 0"
  proof -
    have "a / b \<le> 0" using that assms by (simp add: divide_le_0_iff)
    then have "?r \<le> 0" by (rule trunc_nonpos)
    then have "b * ?r \<le> 0" using assms by (simp add: mult_le_0_iff)
    then show ?thesis using assms by (simp only: js_rem_eq)
  qed
qed

lemma true_mod_range:
  assumes "0 < y"
  shows "0 \<le> js_rem (js_rem v y + y) y" and "js_rem (js_rem v y + y) y < y"
proof -
  have "\<bar>js_rem v y\<bar> < y" using assms by (rule js_rem_bounds)
  then have "0 \<le> js_rem v y + y" by linarith
  then show "0 \<le> js_rem (js_rem v y + y) y"
    using assms by (simp add: js_rem_bounds)
  have "\<bar>js_rem (js_rem v y + y) y\<bar> < y" using assms by (rule js_rem_bounds)
  then show "js_rem (js_rem v y + y) y < y" by linarith
qed




section \<open>The loop: what one pass does, and when the loop ends\<close>

lemma loop_cond_iff: "loop_cond st \<longleftrightarrow> snd (snd st) > 0.05"
  by (cases st) (simp add: loop_cond_def)

lemma loop_body_i: "snd (snd (loop_body scale rot pulse t (g, d, i))) = i * scale"
  by (simp add: loop_body_def Let_def)

lemma loop_body_i': "snd (snd (loop_body scale rot pulse t st)) = snd (snd st) * scale"
  by (cases st) (simp add: loop_body_i)

lemma funpow_body_i:
  "snd (snd ((loop_body scale rot pulse t ^^ n) st)) = snd (snd st) * scale ^ n"
  by (induction n) (simp_all add: loop_body_i' mult.assoc power_commutes)

lemma while_loop_funpow:
  "(\<forall>k<n. loop_cond ((loop_body scale rot pulse t ^^ k) st)) \<Longrightarrow>
   while_loop scale rot pulse t st = while_loop scale rot pulse t ((loop_body scale rot pulse t ^^ n) st)"
proof (induction n)
  case 0
  show ?case by simp
next
  case (Suc n)
  then have g: "loop_cond ((loop_body scale rot pulse t ^^ n) st)"
    and "while_loop scale rot pulse t st = while_loop scale rot pulse t ((loop_body scale rot pulse t ^^ n) st)"
    by simp_all
  then show ?case
    by (subst (asm) (2) while_loop.simps) simp
qed

lemma while_loop_exit:
  assumes "\<forall>k<n. loop_cond ((loop_body scale rot pulse t ^^ k) st)"
    and "\<not> loop_cond ((loop_body scale rot pulse t ^^ n) st)"
  shows "while_loop scale rot pulse t st = Some ((loop_body scale rot pulse t ^^ n) st)"
  using while_loop_funpow [OF assms(1)] assms(2)
  by (subst (asm) (2) while_loop.simps) simp

lemma while_loop_Some:
  assumes "while_loop scale rot pulse t st = Some r"
  shows "\<exists>n. r = (loop_body scale rot pulse t ^^ n) st
            \<and> (\<forall>k<n. loop_cond ((loop_body scale rot pulse t ^^ k) st))
            \<and> \<not> loop_cond r"
proof (rule while_loop.raw_induct [where P = "\<lambda>scale rot pulse t st r.
         \<exists>n. r = (loop_body scale rot pulse t ^^ n) st
            \<and> (\<forall>k<n. loop_cond ((loop_body scale rot pulse t ^^ k) st))
            \<and> \<not> loop_cond r", OF _ assms])
  fix W :: "real \<Rightarrow> real \<Rightarrow> real \<Rightarrow> real \<Rightarrow> globals \<times> real \<times> real \<Rightarrow> (globals \<times> real \<times> real) option"
  fix scale rot pulse t :: real and st r :: "globals \<times> real \<times> real"
  assume IH: "\<And>scale rot pulse t st r. W scale rot pulse t st = Some r \<Longrightarrow>
         \<exists>n. r = (loop_body scale rot pulse t ^^ n) st
            \<and> (\<forall>k<n. loop_cond ((loop_body scale rot pulse t ^^ k) st))
            \<and> \<not> loop_cond r"
    and eq: "(if loop_cond st then W scale rot pulse t (loop_body scale rot pulse t st) else Some st) = Some r"
  show "\<exists>n. r = (loop_body scale rot pulse t ^^ n) st
            \<and> (\<forall>k<n. loop_cond ((loop_body scale rot pulse t ^^ k) st))
            \<and> \<not> loop_cond r"
  proof (cases "loop_cond st")
    case True
    with eq have "W scale rot pulse t (loop_body scale rot pulse t st) = Some r"
      by simp
    from IH [OF this] obtain n where
      n: "r = (loop_body scale rot pulse t ^^ n) (loop_body scale rot pulse t st)"
         "\<forall>k<n. loop_cond ((loop_body scale rot pulse t ^^ k) (loop_body scale rot pulse t st))"
         "\<not> loop_cond r"
      by (elim exE conjE)
    have "\<forall>k<Suc n. loop_cond ((loop_body scale rot pulse t ^^ k) st)"
    proof (intro allI impI)
      fix k assume "k < Suc n"
      show "loop_cond ((loop_body scale rot pulse t ^^ k) st)"
      proof (cases k)
        case 0
        with True show ?thesis by simp
      next
        case (Suc j)
        with \<open>k < Suc n\<close> n(2) show ?thesis by (simp add: funpow_swap1)
      qed
    qed
    moreover have "r = (loop_body scale rot pulse t ^^ Suc n) st"
      using n(1) by (simp add: funpow_swap1)
    ultimately show ?thesis using n(3) by (intro exI [of _ "Suc n"] conjI)
  next
    case False
    with eq have "r = st" by simp
    with False have "r = (loop_body scale rot pulse t ^^ 0) st \<and>
        (\<forall>k<0. loop_cond ((loop_body scale rot pulse t ^^ k) st)) \<and> \<not> loop_cond r"
      by simp
    then show ?thesis by (rule exI)
  qed
qed

lemma while_loop_None:
  assumes "\<forall>k. loop_cond ((loop_body scale rot pulse t ^^ k) st)"
  shows "while_loop scale rot pulse t st = None"
proof (cases "while_loop scale rot pulse t st")
  case None
  then show ?thesis .
next
  case (Some r)
  from while_loop_Some [OF this] obtain n where "\<not> loop_cond ((loop_body scale rot pulse t ^^ n) st)"
    by auto
  with assms show ?thesis by simp
qed

section \<open>Rounding to single precision\<close>

lemma pow2_powr: "pow2 k = 2 powr (of_int k)"
proof (cases "0 \<le> k")
  case True
  then have "(2::real) powr (of_int k) = 2 powr (real (nat k))" by simp
  also have "\<dots> = 2 ^ nat k" by (simp add: powr_realpow)
  finally show ?thesis using True by (simp add: pow2_def)
next
  case False
  then have "(2::real) powr (of_int k) = 2 powr (- real (nat (- k)))" by simp
  also have "\<dots> = 1 / 2 ^ nat (- k)" by (simp add: powr_minus powr_realpow divide_inverse)
  finally show ?thesis using False by (simp add: pow2_def)
qed

lemma pow2_pos: "0 < pow2 k"
  by (simp add: pow2_powr)

lemma floor_log2:
  assumes "pow2 e \<le> \<bar>x\<bar>" and "\<bar>x\<bar> < pow2 (e + 1)"
  shows "\<lfloor>log 2 \<bar>x\<bar>\<rfloor> = e"
proof (rule floor_unique)
  have pos: "0 < \<bar>x\<bar>" using assms(1) pow2_pos [of e] by linarith
  show "of_int e \<le> log 2 \<bar>x\<bar>"
    using assms(1) pos by (simp add: le_log_iff pow2_powr)
  have "\<bar>x\<bar> < 2 powr (of_int e + 1)"
    using assms(2) by (simp add: pow2_powr)
  then show "log 2 \<bar>x\<bar> < of_int e + 1"
    using pos by (simp add: log_less_iff)
qed

lemma fround_eval:
  assumes "pow2 e \<le> \<bar>x\<bar>" and "\<bar>x\<bar> < pow2 (e + 1)" and "- 126 \<le> e"
  shows "fround x = of_int (round_half_even (x / pow2 (e - 23))) * pow2 (e - 23)"
proof -
  have "x \<noteq> 0" using assms(1) pow2_pos [of e] by auto
  moreover have "f32_exponent x = e"
    using assms(3) by (simp add: f32_exponent_def floor_log2 [OF assms(1,2)])
  ultimately show ?thesis by (simp add: fround_def Let_def)
qed

lemma fround_0: "fround 0 = 0"
  by (simp add: fround_def)

lemma fround_5: "fround 5 = 5"
  by (subst fround_eval [where e = 2]) (simp_all add: pow2_def round_half_even_def)

text \<open>
  The roundings of \<open>-5.8\<close> and \<open>-0.8\<close>, with the fractions in lowest terms:
  \<open>6081741 / 1048576 = 5.80000019073486328125\<close> and
  \<open>13421773 / 16777216 = 0.800000011920928955078125\<close>.
\<close>

lemma fround_minus_58: "fround (- (29 / 5)) = - (6081741 / 1048576)"
  by (subst fround_eval [where e = 2]) (simp_all add: pow2_def round_half_even_def)

lemma fround_minus_08: "fround (- (4 / 5)) = - (13421773 / 16777216)"
  by (subst fround_eval [where e = "- 1"]) (simp_all add: pow2_def round_half_even_def)

section \<open>The lattice size and the number of passes\<close>

lemma lattice_size:
  "snd (snd ((loop_body scale rot pulse t ^^ k) (g, d, 58))) = 58 * scale ^ k"
  by (simp add: funpow_body_i)

lemma loop_cond_lattice:
  "loop_cond ((loop_body scale rot pulse t ^^ k) (g, d, 58)) \<longleftrightarrow> 58 * scale ^ k > 0.05"
  by (simp only: loop_cond_iff lattice_size)

lemma lattice_gt_iff:
  assumes "0 < scale" "scale < 1"
  shows "58 * scale ^ k > (0.05::real) \<longleftrightarrow> real k < ln (0.05 / 58) / ln scale"
proof -
  have neg: "ln scale < 0" using assms by simp
  have pos: "0 < scale ^ k" using assms by simp
  have "58 * scale ^ k > (0.05::real) \<longleftrightarrow> 0.05 / 58 < scale ^ k"
    by (simp add: field_simps)
  also have "\<dots> \<longleftrightarrow> ln (0.05 / 58) < ln (scale ^ k)"
    using pos by (subst ln_less_cancel_iff) simp_all
  also have "\<dots> \<longleftrightarrow> ln (0.05 / 58) < real k * ln scale"
    using assms by (simp add: ln_realpow)
  also have "\<dots> \<longleftrightarrow> real k < ln (0.05 / 58) / ln scale"
    using neg by (simp add: less_divide_eq mult.commute)
  finally show ?thesis .
qed

lemma iteration_count:
  assumes "0 < scale" "scale < 1"
  defines "N \<equiv> nat \<lceil>ln (0.05 / 58) / ln scale\<rceil>"
  shows "\<forall>k<N. 58 * scale ^ k > (0.05::real)" and "\<not> 58 * scale ^ N > (0.05::real)"
proof -
  let ?x = "ln (0.05 / 58) / ln scale"
  have neg: "ln scale < 0" using assms by simp
  have "ln (0.05 / 58 :: real) < 0" by simp
  with neg have xpos: "0 < ?x" by (simp add: divide_neg_neg)
  show "\<forall>k<N. 58 * scale ^ k > (0.05::real)"
  proof (intro allI impI)
    fix k assume "k < N"
    then have "int k < \<lceil>?x\<rceil>" unfolding N_def by linarith
    then have "real k < ?x" by (simp add: less_ceiling_iff)
    then show "58 * scale ^ k > (0.05::real)"
      using assms(1,2) by (simp only: lattice_gt_iff)
  qed
  have "?x \<le> of_int \<lceil>?x\<rceil>" by (rule le_of_int_ceiling)
  moreover have "0 \<le> \<lceil>?x\<rceil>" using xpos by linarith
  ultimately have "?x \<le> real N" unfolding N_def by simp
  then show "\<not> 58 * scale ^ N > (0.05::real)"
    using assms(1,2) by (simp only: lattice_gt_iff)
qed

lemma while_loop_step:
  "loop_cond st \<Longrightarrow>
   while_loop scale rot pulse t st = while_loop scale rot pulse t (loop_body scale rot pulse t st)"
  by (subst while_loop.simps) simp

lemma loop_cond_entry: "loop_cond (g, d, 58)"
  by (simp add: loop_cond_def)

lemma while_loop_contracting:
  assumes "0 < scale" "scale < 1"
  shows "while_loop scale rot pulse t (g, d, 58)
       = Some ((loop_body scale rot pulse t ^^ nat \<lceil>ln (0.05 / 58) / ln scale\<rceil>) (g, d, 58))"
proof (rule while_loop_exit)
  show "\<forall>k<nat \<lceil>ln (0.05 / 58) / ln scale\<rceil>.
          loop_cond ((loop_body scale rot pulse t ^^ k) (g, d, 58))"
    unfolding loop_cond_lattice using assms by (rule iteration_count(1))
  show "\<not> loop_cond ((loop_body scale rot pulse t ^^ nat \<lceil>ln (0.05 / 58) / ln scale\<rceil>) (g, d, 58))"
    unfolding loop_cond_lattice using assms by (rule iteration_count(2))
qed

lemma while_loop_nonpositive:
  assumes "scale \<le> 0"
  shows "while_loop scale rot pulse t (g, d, 58) = Some (loop_body scale rot pulse t (g, d, 58))"
proof -
  have "58 * scale \<le> 0" using assms by (simp add: mult_le_0_iff)
  then have "\<not> loop_cond (loop_body scale rot pulse t (g, d, 58))"
    by (simp add: loop_cond_iff loop_body_i)
  then have "while_loop scale rot pulse t (loop_body scale rot pulse t (g, d, 58))
      = Some (loop_body scale rot pulse t (g, d, 58))"
    by (subst while_loop.simps) simp
  then show ?thesis by (simp add: while_loop_step loop_cond_entry)
qed

lemma while_loop_expanding:
  assumes "1 \<le> scale"
  shows "while_loop scale rot pulse t (g, d, 58) = None"
proof (rule while_loop_None, rule allI)
  fix k
  have "1 \<le> scale ^ k" using assms by (rule one_le_power)
  then show "loop_cond ((loop_body scale rot pulse t ^^ k) (g, d, 58))"
    unfolding loop_cond_lattice by simp
qed

section \<open>The evaluator\<close>

lemma buf3_overwrite:
  "(b::buf3)\<lparr>ix0 := x, ix1 := y, ix2 := z\<rparr> = \<lparr>ix0 = x, ix1 = y, ix2 = z\<rparr>"
  by (cases b) simp

lemma getPlanet1Distance_loop:
  "getPlanet1Distance g p_vec uniforms t =
     map_option (\<lambda>(g, d, i). (d, g))
       (while_loop (nullish (uniforms ''slider_fractalScale'') 0.37)
          (nullish (uniforms ''slider_fractalRotation'') 1.09)
          (nullish (uniforms ''slider_fractalPulseStrength'') 0.0) t
          (g\<lparr>temp_q := fround3 p_vec\<rparr>, - fround (ix1 p_vec), 58))"
  by (simp add: getPlanet1Distance_def Let_def buf3_overwrite fround3_def)

lemma loop_body_cong:
  "temp_q g = temp_q g' \<Longrightarrow>
   loop_body scale rot pulse t (g, d, i) = loop_body scale rot pulse t (g', d, i)"
  by (cases g, cases g') (simp add: loop_body_def Let_def)

text \<open>
  C6. The result of a call depends on the arguments only: whatever the module-level
  buffers hold before the call (what earlier calls left there), the call returns the
  same value (or never returns in both cases), and leaves the same contents behind.
\<close>

theorem getPlanet1Distance_deterministic:
  "getPlanet1Distance g p_vec uniforms t = getPlanet1Distance g' p_vec uniforms t"
proof -
  have "loop_body scale rot pulse t (g\<lparr>temp_q := fround3 p_vec\<rparr>, d, i)
      = loop_body scale rot pulse t (g'\<lparr>temp_q := fround3 p_vec\<rparr>, d, i)" for scale rot pulse d i
    by (rule loop_body_cong) simp
  then show ?thesis
    unfolding getPlanet1Distance_loop by (simp add: while_loop_step loop_cond_entry)
qed

text \<open>
  C1, as amended. The loop has no cap on the number of passes. For a resolved scale
  \<open>\<le> 0\<close> the call returns after exactly one pass (the loop condition fails for the
  lattice size \<open>58 * scale\<close>), with the \<open>d\<close> of that pass; for a resolved scale \<open>\<ge> 1\<close>
  the call never returns.
\<close>

theorem getPlanet1Distance_scale_outside:
  fixes uniforms :: uniforms and g :: globals and p_vec :: buf3 and t :: real
  defines "scale \<equiv> nullish (uniforms ''slider_fractalScale'') 0.37"
    and "rot \<equiv> nullish (uniforms ''slider_fractalRotation'') 1.09"
    and "pulse \<equiv> nullish (uniforms ''slider_fractalPulseStrength'') 0.0"
  defines "entry \<equiv> (g\<lparr>temp_q := fround3 p_vec\<rparr>, - fround (ix1 p_vec), 58)"
  shows "(scale \<le> 0 \<longrightarrow>
            \<not> loop_cond (loop_body scale rot pulse t entry)
          \<and> getPlanet1Distance g p_vec uniforms t
              = Some (fst (snd (loop_body scale rot pulse t entry)),
                      fst (loop_body scale rot pulse t entry)))
       \<and> (1 \<le> scale \<longrightarrow> getPlanet1Distance g p_vec uniforms t = None)"
proof (intro conjI impI)
  assume "scale \<le> 0"
  then have "58 * scale \<le> 0" by (simp add: mult_le_0_iff)
  then show "\<not> loop_cond (loop_body scale rot pulse t entry)"
    unfolding entry_def by (simp add: loop_cond_iff loop_body_i)
  have "while_loop scale rot pulse t entry = Some (loop_body scale rot pulse t entry)"
    unfolding entry_def using \<open>scale \<le> 0\<close> by (rule while_loop_nonpositive)
  then show "getPlanet1Distance g p_vec uniforms t
              = Some (fst (snd (loop_body scale rot pulse t entry)),
                      fst (loop_body scale rot pulse t entry))"
    unfolding getPlanet1Distance_loop scale_def rot_def pulse_def entry_def
    by (simp add: case_prod_beta)
next
  assume "1 \<le> scale"
  then have "while_loop scale rot pulse t entry = None"
    unfolding entry_def by (rule while_loop_expanding)
  then show "getPlanet1Distance g p_vec uniforms t = None"
    unfolding getPlanet1Distance_loop scale_def rot_def pulse_def entry_def by simp
qed

lemma mod_fold_abs_0_58: "mod_fold_abs 0 58 = 58"
  by (simp add: mod_fold_abs_def js_rem_def trunc_def)

lemma mod_fold_abs_5_58: "mod_fold_abs 5 58 = 53"
  by (simp add: mod_fold_abs_def js_rem_def trunc_def)

lemma one_pass_example:
  "loop_body 0 0 0 0
     (\<lparr>temp_q = \<lparr>ix0 = 0, ix1 = 0, ix2 = 5\<rparr>, temp_q_rot = \<lparr>ix0 = 0, ix1 = 0, ix2 = 0\<rparr>\<rparr>, 0, 58)
   = (\<lparr>temp_q = \<lparr>ix0 = - (6081741 / 1048576), ix1 = - (6081741 / 1048576),
                  ix2 = - (13421773 / 16777216)\<rparr>,
       temp_q_rot = \<lparr>ix0 = 0, ix1 = 0, ix2 = 5\<rparr>\<rparr>, 0, 0)"
  by (simp add: loop_body_def Let_def fround_0 fround_5 mod_fold_abs_0_58 mod_fold_abs_5_58
      fround_minus_58 fround_minus_08)

theorem getPlanet1Distance_scale_outside_witness:
  "nullish ([''slider_fractalScale'' \<mapsto> 0, ''slider_fractalRotation'' \<mapsto> 0,
             ''slider_fractalPulseStrength'' \<mapsto> 0] ''slider_fractalScale'') 0.37 \<le> 0
   \<and> getPlanet1Distance
        \<lparr>temp_q = \<lparr>ix0 = 0, ix1 = 0, ix2 = 0\<rparr>, temp_q_rot = \<lparr>ix0 = 0, ix1 = 0, ix2 = 0\<rparr>\<rparr>
        \<lparr>ix0 = 0, ix1 = 0, ix2 = 5\<rparr>
        [''slider_fractalScale'' \<mapsto> 0, ''slider_fractalRotation'' \<mapsto> 0,
         ''slider_fractalPulseStrength'' \<mapsto> 0] 0
      = Some (0, \<lparr>temp_q = \<lparr>ix0 = - (6081741 / 1048576), ix1 = - (6081741 / 1048576),
                             ix2 = - (13421773 / 16777216)\<rparr>,
                  temp_q_rot = \<lparr>ix0 = 0, ix1 = 0, ix2 = 5\<rparr>\<rparr>)
   \<and> 1 \<le> nullish ([''slider_fractalScale'' \<mapsto> 2] ''slider_fractalScale'') 0.37
   \<and> getPlanet1Distance
        \<lparr>temp_q = \<lparr>ix0 = 0, ix1 = 0, ix2 = 0\<rparr>, temp_q_rot = \<lparr>ix0 = 0, ix1 = 0, ix2 = 0\<rparr>\<rparr>
        \<lparr>ix0 = 0, ix1 = 0, ix2 = 5\<rparr> [''slider_fractalScale'' \<mapsto> 2] 0 = None"
  using getPlanet1Distance_scale_outside
    [where uniforms = "[''slider_fractalScale'' \<mapsto> 0, ''slider_fractalRotation'' \<mapsto> 0,
          ''slider_fractalPulseStrength'' \<mapsto> 0]" and t = 0
       and p_vec = "\<lparr>ix0 = 0, ix1 = 0, ix2 = 5\<rparr>"
       and g = "\<lparr>temp_q = \<lparr>ix0 = 0, ix1 = 0, ix2 = 0\<rparr>, temp_q_rot = \<lparr>ix0 = 0, ix1 = 0, ix2 = 0\<rparr>\<rparr>"]
    getPlanet1Distance_scale_outside
    [where uniforms = "[''slider_fractalScale'' \<mapsto> 2]" and t = 0
       and p_vec = "\<lparr>ix0 = 0, ix1 = 0, ix2 = 5\<rparr>"
       and g = "\<lparr>temp_q = \<lparr>ix0 = 0, ix1 = 0, ix2 = 0\<rparr>, temp_q_rot = \<lparr>ix0 = 0, ix1 = 0, ix2 = 0\<rparr>\<rparr>"]
  by (simp add: nullish_def one_pass_example fround3_def fround_0 fround_5)

text \<open>
  C1, as stated, fails: with \<open>slider_fractalScale = 1\<close> the lattice size stays \<open>58\<close>, the
  loop condition \<open>i > 0.05\<close> never fails, and the call does not return.
\<close>

theorem getPlanet1Distance_scale_one_counterexample:
  "getPlanet1Distance
     \<lparr>temp_q = \<lparr>ix0 = 0, ix1 = 0, ix2 = 0\<rparr>, temp_q_rot = \<lparr>ix0 = 0, ix1 = 0, ix2 = 0\<rparr>\<rparr>
     \<lparr>ix0 = 0, ix1 = 0, ix2 = 5\<rparr> [''slider_fractalScale'' \<mapsto> 1] 0 = None"
  unfolding getPlanet1Distance_loop
  by (simp add: nullish_def while_loop_expanding)

text \<open>
  C5. When one of the keys \<open>slider_fractalScale\<close>, \<open>slider_fractalRotation\<close>,
  \<open>slider_fractalPulseStrength\<close> is missing from the uniforms, the call behaves as the
  call with that key set to its default (0.37, 1.09, 0.0); and with the scale missing the
  call returns a value. (A lookup has no failing branch in the evaluator.)
\<close>

theorem getPlanet1Distance_defaults:
  "(uniforms ''slider_fractalScale'' = None \<longrightarrow>
      getPlanet1Distance g p_vec uniforms t
        = getPlanet1Distance g p_vec (uniforms(''slider_fractalScale'' \<mapsto> 0.37)) t
      \<and> (\<exists>r. getPlanet1Distance g p_vec uniforms t = Some r))
   \<and> (uniforms ''slider_fractalRotation'' = None \<longrightarrow>
      getPlanet1Distance g p_vec uniforms t
        = getPlanet1Distance g p_vec (uniforms(''slider_fractalRotation'' \<mapsto> 1.09)) t)
   \<and> (uniforms ''slider_fractalPulseStrength'' = None \<longrightarrow>
      getPlanet1Distance g p_vec uniforms t
        = getPlanet1Distance g p_vec (uniforms(''slider_fractalPulseStrength'' \<mapsto> 0.0)) t)"
proof (intro conjI impI)
  assume m: "uniforms ''slider_fractalScale'' = None"
  then show "getPlanet1Distance g p_vec uniforms t
        = getPlanet1Distance g p_vec (uniforms(''slider_fractalScale'' \<mapsto> 0.37)) t"
    by (simp add: getPlanet1Distance_def nullish_def)
  have "while_loop 0.37 (nullish (uniforms ''slider_fractalRotation'') 1.09)
          (nullish (uniforms ''slider_fractalPulseStrength'') 0.0) t
          (g\<lparr>temp_q := fround3 p_vec\<rparr>, - fround (ix1 p_vec), 58)
        = Some ((loop_body 0.37 (nullish (uniforms ''slider_fractalRotation'') 1.09)
          (nullish (uniforms ''slider_fractalPulseStrength'') 0.0) t
            ^^ nat \<lceil>ln (0.05 / 58) / ln (0.37::real)\<rceil>) (g\<lparr>temp_q := fround3 p_vec\<rparr>, - fround (ix1 p_vec), 58))"
    by (rule while_loop_contracting) simp_all
  then show "\<exists>r. getPlanet1Distance g p_vec uniforms t = Some r"
    unfolding getPlanet1Distance_loop using m by (simp add: nullish_def)
next
  assume "uniforms ''slider_fractalRotation'' = None"
  then show "getPlanet1Distance g p_vec uniforms t
        = getPlanet1Distance g p_vec (uniforms(''slider_fractalRotation'' \<mapsto> 1.09)) t"
    by (simp add: getPlanet1Distance_def nullish_def)
next
  assume "uniforms ''slider_fractalPulseStrength'' = None"
  then show "getPlanet1Distance g p_vec uniforms t
        = getPlanet1Distance g p_vec (uniforms(''slider_fractalPulseStrength'' \<mapsto> 0.0)) t"
    by (simp add: getPlanet1Distance_def nullish_def)
qed

theorem getPlanet1Distance_defaults_witness:
  "Map.empty ''slider_fractalScale'' = (None :: real option)
   \<and> getPlanet1Distance
        \<lparr>temp_q = \<lparr>ix0 = 0, ix1 = 0, ix2 = 0\<rparr>, temp_q_rot = \<lparr>ix0 = 0, ix1 = 0, ix2 = 0\<rparr>\<rparr>
        \<lparr>ix0 = 0, ix1 = 0, ix2 = 5\<rparr> Map.empty 0
      = getPlanet1Distance
        \<lparr>temp_q = \<lparr>ix0 = 0, ix1 = 0, ix2 = 0\<rparr>, temp_q_rot = \<lparr>ix0 = 0, ix1 = 0, ix2 = 0\<rparr>\<rparr>
        \<lparr>ix0 = 0, ix1 = 0, ix2 = 5\<rparr> [''slider_fractalScale'' \<mapsto> 0.37] 0
   \<and> (\<exists>r. getPlanet1Distance
        \<lparr>temp_q = \<lparr>ix0 = 0, ix1 = 0, ix2 = 0\<rparr>, temp_q_rot = \<lparr>ix0 = 0, ix1 = 0, ix2 = 0\<rparr>\<rparr>
        \<lparr>ix0 = 0, ix1 = 0, ix2 = 5\<rparr> Map.empty 0 = Some r)
   \<and> Map.empty ''slider_fractalRotation'' = (None :: real option)
   \<and> getPlanet1Distance
        \<lparr>temp_q = \<lparr>ix0 = 0, ix1 = 0, ix2 = 0\<rparr>, temp_q_rot = \<lparr>ix0 = 0, ix1 = 0, ix2 = 0\<rparr>\<rparr>
        \<lparr>ix0 = 0, ix1 = 0, ix2 = 5\<rparr> Map.empty 0
      = getPlanet1Distance
        \<lparr>temp_q = \<lparr>ix0 = 0, ix1 = 0, ix2 = 0\<rparr>, temp_q_rot = \<lparr>ix0 = 0, ix1 = 0, ix2 = 0\<rparr>\<rparr>
        \<lparr>ix0 = 0, ix1 = 0, ix2 = 5\<rparr> [''slider_fractalRotation'' \<mapsto> 1.09] 0
   \<and> Map.empty ''slider_fractalPulseStrength'' = (None :: real option)
   \<and> getPlanet1Distance
        \<lparr>temp_q = \<lparr>ix0 = 0, ix1 = 0, ix2 = 0\<rparr>, temp_q_rot = \<lparr>ix0 = 0, ix1 = 0, ix2 = 0\<rparr>\<rparr>
        \<lparr>ix0 = 0, ix1 = 0, ix2 = 5\<rparr> Map.empty 0
      = getPlanet1Distance
        \<lparr>temp_q = \<lparr>ix0 = 0, ix1 = 0, ix2 = 0\<rparr>, temp_q_rot = \<lparr>ix0 = 0, ix1 = 0, ix2 = 0\<rparr>\<rparr>
        \<lparr>ix0 = 0, ix1 = 0, ix2 = 5\<rparr> [''slider_fractalPulseStrength'' \<mapsto> 0.0] 0"
  using getPlanet1Distance_defaults
    [where uniforms = Map.empty and t = 0 and p_vec = "\<lparr>ix0 = 0, ix1 = 0, ix2 = 5\<rparr>"
       and g = "\<lparr>temp_q = \<lparr>ix0 = 0, ix1 = 0, ix2 = 0\<rparr>, temp_q_rot = \<lparr>ix0 = 0, ix1 = 0, ix2 = 0\<rparr>\<rparr>"]
  by (simp (no_asm_use))

section \<open>Rounding to a binary format\<close>

lemma rhe_err: "\<bar>of_int (round_half_even z) - z\<bar> \<le> 1 / 2"
  using floor_correct [of z] unfolding round_half_even_def Let_def
  by (auto simp: abs_if split: if_splits; linarith)

lemma rhe_ge: "of_int n \<le> z \<Longrightarrow> n \<le> round_half_even z"
proof -
  assume "of_int n \<le> z"
  then have "n \<le> \<lfloor>z\<rfloor>" by (simp add: le_floor_iff)
  then show ?thesis unfolding round_half_even_def Let_def by simp
qed

lemma rhe_le: "z \<le> of_int n \<Longrightarrow> round_half_even z \<le> n"
proof (cases "z = of_int n")
  case True
  then show ?thesis by (simp add: round_half_even_def)
next
  case False
  assume "z \<le> of_int n"
  with False have "z < of_int n" by simp
  then have "\<lfloor>z\<rfloor> < n" by (simp add: floor_less_iff)
  then show ?thesis unfolding round_half_even_def Let_def by simp
qed

lemma pow2_add: "pow2 (a + b) = pow2 a * pow2 b"
  by (simp add: pow2_powr powr_add)

lemma pow2_mono: "a \<le> b \<Longrightarrow> pow2 a \<le> pow2 b"
  by (simp add: pow2_powr)

lemma pow2_floor_log:
  assumes "0 < x"
  shows "pow2 \<lfloor>log 2 x\<rfloor> \<le> x" and "x < pow2 (\<lfloor>log 2 x\<rfloor> + 1)"
proof -
  have "of_int \<lfloor>log 2 x\<rfloor> \<le> log 2 x" by simp
  then have "2 powr (of_int \<lfloor>log 2 x\<rfloor>) \<le> 2 powr (log 2 x)"
    by (simp only: powr_le_cancel_iff) 
  then show "pow2 \<lfloor>log 2 x\<rfloor> \<le> x" using assms by (simp add: pow2_powr)
  have "log 2 x < of_int (\<lfloor>log 2 x\<rfloor> + 1)" by simp
  then have "2 powr (log 2 x) < 2 powr (of_int (\<lfloor>log 2 x\<rfloor> + 1))"
    by (simp only: powr_less_cancel_iff)
  then show "x < pow2 (\<lfloor>log 2 x\<rfloor> + 1)" using assms by (simp add: pow2_powr)
qed

text \<open>The rounding of a positive number: the error is at most half a quantum.\<close>

lemma round_to_pos:
  fixes m emin emax :: int and x :: real
  assumes "0 < x"
  defines "q \<equiv> pow2 (max emin \<lfloor>log 2 x\<rfloor> - m)"
  defines "y \<equiv> of_int (round_half_even (x / q)) * q"
  shows "round_to m emin emax x = (if pow2 (emax + 1) \<le> y then PInf else Fin y)"
    and "0 \<le> y" and "\<bar>y - x\<bar> \<le> q / 2"
proof -
  have qpos: "0 < q" by (simp add: q_def pow2_pos)
  have "0 \<le> x / q" using assms(1) qpos by simp
  then have "0 \<le> round_half_even (x / q)" using rhe_ge [of 0 "x / q"] by simp
  then show y0: "0 \<le> y" using qpos by (simp add: y_def)
  then show "round_to m emin emax x = (if pow2 (emax + 1) \<le> y then PInf else Fin y)"
    using assms(1) by (simp add: round_to_def Let_def q_def [symmetric] y_def [symmetric])
  have "\<bar>of_int (round_half_even (x / q)) - x / q\<bar> * q \<le> (1 / 2) * q"
    using rhe_err [of "x / q"] qpos by (simp only: mult_le_cancel_right_pos)
  moreover have "(of_int (round_half_even (x / q)) - x / q) * q = y - x"
    using qpos by (simp add: y_def left_diff_distrib)
  then have "\<bar>y - x\<bar> = \<bar>of_int (round_half_even (x / q)) - x / q\<bar> * \<bar>q\<bar>"
    by (simp only: abs_mult [symmetric])
  then have "\<bar>of_int (round_half_even (x / q)) - x / q\<bar> * q = \<bar>y - x\<bar>"
    using qpos by simp
  ultimately show "\<bar>y - x\<bar> \<le> q / 2" by simp
qed


lemma round_to_err:
  fixes m emin emax :: int and x :: real
  assumes "x \<noteq> 0"
  defines "q \<equiv> pow2 (max emin \<lfloor>log 2 \<bar>x\<bar>\<rfloor> - m)"
  defines "y \<equiv> of_int (round_half_even (x / q)) * q"
  shows "round_to m emin emax x
       = (if pow2 (emax + 1) \<le> \<bar>y\<bar> then (if 0 < x then PInf else NInf) else Fin y)"
    and "\<bar>y - x\<bar> \<le> q / 2"
proof -
  have qpos: "0 < q" by (simp add: q_def pow2_pos)
  show "round_to m emin emax x
       = (if pow2 (emax + 1) \<le> \<bar>y\<bar> then (if 0 < x then PInf else NInf) else Fin y)"
    using assms(1) by (simp add: round_to_def Let_def q_def [symmetric] y_def [symmetric])
  have "\<bar>of_int (round_half_even (x / q)) - x / q\<bar> * q \<le> (1 / 2) * q"
    using rhe_err [of "x / q"] qpos by (simp only: mult_le_cancel_right_pos)
  moreover have "(of_int (round_half_even (x / q)) - x / q) * q = y - x"
    using qpos by (simp add: y_def left_diff_distrib)
  then have "\<bar>y - x\<bar> = \<bar>of_int (round_half_even (x / q)) - x / q\<bar> * \<bar>q\<bar>"
    by (simp only: abs_mult [symmetric])
  then have "\<bar>of_int (round_half_even (x / q)) - x / q\<bar> * q = \<bar>y - x\<bar>"
    using qpos by simp
  ultimately show "\<bar>y - x\<bar> \<le> q / 2" by simp
qed

lemma round_to_eval:
  assumes "pow2 e \<le> \<bar>x\<bar>" and "\<bar>x\<bar> < pow2 (e + 1)" and "emin \<le> e"
    and "of_int (round_half_even (x / pow2 (e - m))) * pow2 (e - m) = y"
    and "\<bar>y\<bar> < pow2 (emax + 1)"
  shows "round_to m emin emax x = Fin y"
proof -
  have "x \<noteq> 0" using assms(1) pow2_pos [of e] by auto
  moreover have "max emin \<lfloor>log 2 \<bar>x\<bar>\<rfloor> = e"
    using assms(3) by (simp add: floor_log2 [OF assms(1,2)])
  ultimately show ?thesis using assms(4,5) by (simp add: round_to_def Let_def)
qed

lemma pow2_64: "(2::real) ^ 64 < pow2 128" "(2::real) ^ 64 < pow2 1024"
proof -
  have "(2::real) ^ 64 < pow2 65" by (simp add: pow2_def)
  moreover have "pow2 65 \<le> pow2 128" "pow2 65 \<le> pow2 1024" by (rule pow2_mono, simp)+
  ultimately show "(2::real) ^ 64 < pow2 128" "(2::real) ^ 64 < pow2 1024" by linarith+
qed

lemma fl64_eval:
  assumes "pow2 e \<le> \<bar>x\<bar>" and "\<bar>x\<bar> < pow2 (e + 1)" and "- 1022 \<le> e"
    and "of_int (round_half_even (x / pow2 (e - 52))) * pow2 (e - 52) = y"
    and "\<bar>y\<bar> \<le> 2 ^ 64"
  shows "fl64 x = Fin y"
  unfolding fl64_def using assms(1-4)
proof (rule round_to_eval)
  show "\<bar>y\<bar> < pow2 (1023 + 1)" using assms(5) pow2_64(2) by simp
qed

lemma fl32_eval:
  assumes "pow2 e \<le> \<bar>x\<bar>" and "\<bar>x\<bar> < pow2 (e + 1)" and "- 126 \<le> e"
    and "of_int (round_half_even (x / pow2 (e - 23))) * pow2 (e - 23) = y"
    and "\<bar>y\<bar> \<le> 2 ^ 64"
  shows "fl32 x = Fin y"
  unfolding fl32_def using assms(1-4)
proof (rule round_to_eval)
  show "\<bar>y\<bar> < pow2 (127 + 1)" using assms(5) pow2_64(1) by simp
qed

lemma fl64_0: "fl64 0 = Fin 0"
  by (simp add: fl64_def round_to_def)

lemma fl32_0: "fl32 0 = Fin 0"
  by (simp add: fl32_def round_to_def)

lemma fl64_1: "fl64 1 = Fin 1"
  by (rule fl64_eval [where e = 0]) (simp_all add: pow2_def round_half_even_def)

lemma fl64_5: "fl64 5 = Fin 5"
  by (rule fl64_eval [where e = 2]) (simp_all add: pow2_def round_half_even_def)

lemma fl64_58: "fl64 58 = Fin 58"
  by (rule fl64_eval [where e = 5]) (simp_all add: pow2_def round_half_even_def)

lemma fl64_half: "fl64 (1 / 2) = Fin (1 / 2)"
  by (rule fl64_eval [where e = "- 1"]) (simp_all add: pow2_def round_half_even_def)

lemma fl64_005: "fl64 (1 / 20) = Fin (3602879701896397 / 72057594037927936)"
  by (rule fl64_eval [where e = "- 5"]) (simp_all add: pow2_def round_half_even_def)


lemma pow2_tiny: "pow2 (- 1022) \<le> 1 / 32"
proof -
  have "pow2 (- 1022) \<le> pow2 (- 5)" by (rule pow2_mono) simp
  then show ?thesis by (simp add: pow2_def)
qed

text \<open>
  A product of doubles that is positive and at most 58 rounds to a double that exceeds it
  by the factor \<open>1 + 2 ^ (-53)\<close> at most, or lies in the subnormal range.
\<close>

lemma fl64_pos_bound:
  assumes "0 < x" and "x \<le> 58"
  shows "\<exists>y. fl64 x = Fin y \<and> 0 \<le> y \<and> y \<le> max (x * (1 + 1 / 2 ^ 53)) (pow2 (- 1022))"
proof -
  define q where "q = pow2 (max (- 1022) \<lfloor>log 2 x\<rfloor> - 52)"
  define y where "y = of_int (round_half_even (x / q)) * q"
  have r: "fl64 x = (if pow2 (1023 + 1) \<le> y then PInf else Fin y)"
    and y0: "0 \<le> y" and err: "\<bar>y - x\<bar> \<le> q / 2"
    unfolding fl64_def y_def q_def by (rule round_to_pos [OF assms(1)])+
  have qpos: "0 < q" by (simp add: q_def pow2_pos)
  have bound: "y \<le> max (x * (1 + 1 / 2 ^ 53)) (pow2 (- 1022))"
  proof (cases "- 1022 \<le> \<lfloor>log 2 x\<rfloor>")
    case True
    then have "q = pow2 (\<lfloor>log 2 x\<rfloor> + (- 52))" by (simp add: q_def max_def)
    also have "\<dots> = pow2 \<lfloor>log 2 x\<rfloor> * pow2 (- 52)" by (rule pow2_add)
    also have "\<dots> \<le> x * pow2 (- 52)"
      using pow2_floor_log(1) [OF assms(1)] pow2_pos [of "- 52"] by simp
    finally have "q \<le> x / 2 ^ 52" by (simp add: pow2_def)
    then have "q / 2 \<le> x / 2 ^ 53" by simp
    moreover have "y \<le> x + q / 2" using err by linarith
    ultimately have "y \<le> x + x / 2 ^ 53" by linarith
    also have "\<dots> = x * (1 + 1 / 2 ^ 53)" by (simp only: distrib_left mult_1_right times_divide_eq_right)
    finally show ?thesis by simp
  next
    case False
    then have q: "q = pow2 (- 1074)" by (simp add: q_def max_def)
    have "\<lfloor>log 2 x\<rfloor> + 1 \<le> - 1022" using False by linarith
    then have "pow2 (\<lfloor>log 2 x\<rfloor> + 1) \<le> pow2 (- 1022)" by (rule pow2_mono)
    with pow2_floor_log(2) [OF assms(1)] have "x < pow2 (- 1022)" by linarith
    moreover have t: "pow2 (- 1022) = pow2 52 * q"
      unfolding q using pow2_add [of 52 "- 1074"] by simp
    ultimately have "x / q < pow2 52" using qpos by (simp add: field_simps)
    then have "x / q \<le> of_int (2 ^ 52)" by (simp add: pow2_def)
    then have "round_half_even (x / q) \<le> 2 ^ 52" by (rule rhe_le)
    then have "(of_int (round_half_even (x / q)) :: real) \<le> of_int (2 ^ 52)"
      by (simp only: of_int_le_iff)
    then have "of_int (round_half_even (x / q)) * q \<le> of_int (2 ^ 52) * q"
      using qpos by (simp only: mult_le_cancel_right_pos)
    moreover have "pow2 52 = of_int (2 ^ 52)" by (simp add: pow2_def)
    ultimately have "y \<le> pow2 (- 1022)" by (simp only: y_def t)
    then show ?thesis by simp
  qed
  have "x * (1 + 1 / 2 ^ 53) \<le> 58 * (1 + 1 / 2 ^ 53)" using assms(2) by simp
  then have "max (x * (1 + 1 / 2 ^ 53)) (pow2 (- 1022)) \<le> 2 ^ 64"
    using pow2_tiny by simp
  with bound have "y \<le> 2 ^ 64" by (rule order_trans)
  with pow2_64(2) have "y < pow2 (1023 + 1)" by simp
  with r have "fl64 x = Fin y" by simp
  with y0 bound show ?thesis by blast
qed

text \<open>
  The largest double below 1 is \<open>1 - 2 ^ (-53)\<close>.
\<close>

lemma double_below_one:
  assumes "fl64 s = Fin s" and "0 < s" and "s < 1"
  shows "s \<le> 1 - 1 / 2 ^ 53"
proof (cases "s < 1 / 2")
  case True
  then show ?thesis by simp
next
  case False
  then have "pow2 (- 1) \<le> \<bar>s\<bar>" and "\<bar>s\<bar> < pow2 (- 1 + 1)"
    using assms(2,3) by (simp_all add: pow2_def)
  then have "\<lfloor>log 2 \<bar>s\<bar>\<rfloor> = - 1" by (rule floor_log2)
  then have e: "max (- 1022) \<lfloor>log 2 s\<rfloor> - 52 = - 53" using assms(2) by simp
  define n where "n = round_half_even (s / pow2 (- 53))"
  have "fl64 s = (if pow2 (1023 + 1) \<le> of_int n * pow2 (- 53) then PInf else Fin (of_int n * pow2 (- 53)))"
    unfolding fl64_def n_def using round_to_pos(1) [OF assms(2), of 52 "- 1022" 1023]
    by (simp only: e)
  with assms(1) have "s = of_int n * pow2 (- 53)" by (simp split: if_splits)
  then have s: "s = of_int n / 2 ^ 53" by (simp add: pow2_def)
  with assms(3) have "(of_int n :: real) < of_int (2 ^ 53)" by (simp add: field_simps)
  then have "n < 2 ^ 53" by (simp only: of_int_less_iff)
  then have "n \<le> 2 ^ 53 - 1" by simp
  then have "(of_int n :: real) \<le> of_int (2 ^ 53 - 1)" by (simp only: of_int_le_iff)
  then show ?thesis unfolding s by (simp add: field_simps)
qed

lemma contraction_rate:
  assumes "fl64 s = Fin s" and "0 < s" and "s < 1"
  shows "0 < s * (1 + 1 / 2 ^ 53)" and "s * (1 + 1 / 2 ^ 53) < 1"
proof -
  show "0 < s * (1 + 1 / 2 ^ 53)" using assms(2) by simp
  have "s * (1 + 1 / 2 ^ 53) \<le> (1 - 1 / 2 ^ 53) * (1 + 1 / 2 ^ 53)"
    using double_below_one [OF assms] by simp
  also have "\<dots> < 1" by simp
  finally show "s * (1 + 1 / 2 ^ 53) < 1" .
qed

section \<open>The loop in IEEE arithmetic\<close>

lemma loop_cond_ieee_iff: "loop_cond_ieee st \<longleftrightarrow> js_gt (snd (snd st)) (lit 0.05)"
  by (cases st) (simp add: loop_cond_ieee_def)

lemma loop_body_ieee_i:
  "snd (snd (loop_body_ieee h scale rot pulse t st)) = js_mul (snd (snd st)) scale"
  by (cases st) (simp add: loop_body_ieee_def Let_def)

lemma loop_body_ieee_d:
  "\<exists>m. fst (snd (loop_body_ieee h scale rot pulse t st)) = math_max (fst (snd st)) m"
  by (cases st) (auto simp: loop_body_ieee_def Let_def)

lemma while_loop_ieee_funpow:
  "(\<forall>k<n. loop_cond_ieee ((loop_body_ieee h scale rot pulse t ^^ k) st)) \<Longrightarrow>
   while_loop_ieee h scale rot pulse t st
     = while_loop_ieee h scale rot pulse t ((loop_body_ieee h scale rot pulse t ^^ n) st)"
proof (induction n)
  case 0
  show ?case by simp
next
  case (Suc n)
  then have g: "loop_cond_ieee ((loop_body_ieee h scale rot pulse t ^^ n) st)"
    and "while_loop_ieee h scale rot pulse t st
       = while_loop_ieee h scale rot pulse t ((loop_body_ieee h scale rot pulse t ^^ n) st)"
    by simp_all
  then show ?case
    by (subst (asm) (2) while_loop_ieee.simps) simp
qed

lemma while_loop_ieee_exit:
  assumes "\<forall>k<n. loop_cond_ieee ((loop_body_ieee h scale rot pulse t ^^ k) st)"
    and "\<not> loop_cond_ieee ((loop_body_ieee h scale rot pulse t ^^ n) st)"
  shows "while_loop_ieee h scale rot pulse t st = Some ((loop_body_ieee h scale rot pulse t ^^ n) st)"
  using while_loop_ieee_funpow [OF assms(1)] assms(2)
  by (subst (asm) (2) while_loop_ieee.simps) simp

lemma f32buf3_overwrite:
  "(b::f32buf3)\<lparr>el0 := x, el1 := y, el2 := z\<rparr> = \<lparr>el0 = x, el1 = y, el2 = z\<rparr>"
  by (cases b) simp

lemma getPlanet1Distance_ieee_loop:
  "getPlanet1Distance_ieee h g p_vec uniforms t =
     map_option (\<lambda>(g, d, i). (d, g))
       (while_loop_ieee h (nullish_ieee (uniforms ''slider_fractalScale'') (lit 0.37))
          (nullish_ieee (uniforms ''slider_fractalRotation'') (lit 1.09))
          (nullish_ieee (uniforms ''slider_fractalPulseStrength'') (lit 0.0)) t
          (g\<lparr>temp_q_ieee := f32_store3 p_vec\<rparr>, js_neg (f32_store (el1 p_vec)), lit 58))"
  by (simp add: getPlanet1Distance_ieee_def Let_def f32buf3_overwrite f32_store3_def)

lemma lit_58: "lit 58 = Fin 58"
  by (simp add: lit_def fl64_58)

lemma js_gt_lit_005: "js_gt (Fin x) (lit 0.05) \<Longrightarrow> 1 / 20 < x"
  by (simp add: lit_def fl64_005)

lemma not_js_gt_lit_005: "x \<le> 1 / 20 \<Longrightarrow> \<not> js_gt (Fin x) (lit 0.05)"
  by (simp add: lit_def fl64_005)

text \<open>
  The lattice size after \<open>k\<close> passes, while the loop runs: a double that is at most
  \<open>58 * (scale * (1 + 2 ^ (-53))) ^ k\<close> (each product \<open>i * scale\<close> is rounded), or lies in
  the subnormal range.
\<close>

lemma lattice_size_ieee:
  assumes "fl64 s = Fin s" and "0 < s" and "s < 1"
    and "\<forall>j<k. loop_cond_ieee ((loop_body_ieee h (Fin s) rot pulse t ^^ j) (g, d, lit 58))"
  shows "\<exists>x. snd (snd ((loop_body_ieee h (Fin s) rot pulse t ^^ k) (g, d, lit 58))) = Fin x
            \<and> 0 \<le> x \<and> x \<le> max (58 * (s * (1 + 1 / 2 ^ 53)) ^ k) (pow2 (- 1022))"
  using assms(4)
proof (induction k)
  case 0
  show ?case by (simp add: lit_58)
next
  case (Suc k)
  let ?B = "loop_body_ieee h (Fin s) rot pulse t"
  let ?r = "s * (1 + 1 / 2 ^ 53)"
  from Suc obtain x where x: "snd (snd ((?B ^^ k) (g, d, lit 58))) = Fin x"
    and xle: "x \<le> max (58 * ?r ^ k) (pow2 (- 1022))"
    by auto
  have "loop_cond_ieee ((?B ^^ k) (g, d, lit 58))" using Suc.prems by simp
  then have "js_gt (Fin x) (lit 0.05)" by (simp only: loop_cond_ieee_iff x)
  then have big: "1 / 20 < x" by (rule js_gt_lit_005)
  with pow2_tiny have "pow2 (- 1022) < x" by simp
  with xle have xr: "x \<le> 58 * ?r ^ k" by simp
  have r: "0 < ?r" "?r < 1" using assms(1-3) by (rule contraction_rate)+
  then have "?r ^ k \<le> 1" by (simp add: power_le_one)
  with xr have x58: "x \<le> 58" by simp
  have "0 < x * s" using big assms(2) by simp
  moreover have "x * s \<le> 58"
  proof -
    have "x * s \<le> x * 1" using big assms(3) by (intro mult_left_mono) simp_all
    with x58 show ?thesis by simp
  qed
  ultimately obtain y where y: "fl64 (x * s) = Fin y" and y0: "0 \<le> y"
    and yle: "y \<le> max (x * s * (1 + 1 / 2 ^ 53)) (pow2 (- 1022))"
    using fl64_pos_bound [of "x * s"] by blast
  have "x * ?r \<le> (58 * ?r ^ k) * ?r" using xr r(1) by (simp only: mult_le_cancel_right_pos)
  then have "x * s * (1 + 1 / 2 ^ 53) \<le> 58 * ?r ^ Suc k" by (simp add: mult_ac)
  then have "max (x * s * (1 + 1 / 2 ^ 53)) (pow2 (- 1022)) \<le> max (58 * ?r ^ Suc k) (pow2 (- 1022))"
    by (intro max.mono order_refl)
  with yle have "y \<le> max (58 * ?r ^ Suc k) (pow2 (- 1022))" by (rule order_trans)
  moreover have "snd (snd ((?B ^^ Suc k) (g, d, lit 58))) = Fin y"
    by (simp add: loop_body_ieee_i x y)
  ultimately show ?case using y0 by blast
qed

text \<open>
  So the loop ends, after at least one pass and at most
  \<open>ceil (ln (0.05 / 58) / ln (scale * (1 + 2 ^ (-53))))\<close> passes.
\<close>

lemma loop_ieee_exit:
  assumes "fl64 s = Fin s" and "0 < s" and "s < 1"
  shows "\<exists>n. 1 \<le> n \<and> n \<le> nat \<lceil>ln (0.05 / 58) / ln (s * (1 + 1 / 2 ^ 53))\<rceil>
           \<and> (\<forall>k<n. loop_cond_ieee ((loop_body_ieee h (Fin s) rot pulse t ^^ k) (g, d, lit 58)))
           \<and> \<not> loop_cond_ieee ((loop_body_ieee h (Fin s) rot pulse t ^^ n) (g, d, lit 58))"
proof -
  let ?B = "loop_body_ieee h (Fin s) rot pulse t"
  let ?r = "s * (1 + 1 / 2 ^ 53)"
  let ?N = "nat \<lceil>ln (0.05 / 58) / ln ?r\<rceil>"
  let ?stop = "\<lambda>k. \<not> loop_cond_ieee ((?B ^^ k) (g, d, lit 58))"
  have r: "0 < ?r" "?r < 1" using assms by (rule contraction_rate)+
  have "\<exists>m\<le>?N. ?stop m"
  proof (cases "\<forall>j<?N. loop_cond_ieee ((?B ^^ j) (g, d, lit 58))")
    case True
    from lattice_size_ieee [OF assms True] obtain x
      where x: "snd (snd ((?B ^^ ?N) (g, d, lit 58))) = Fin x"
        and xle: "x \<le> max (58 * ?r ^ ?N) (pow2 (- 1022))"
      by auto
    have "\<not> 58 * ?r ^ ?N > (0.05::real)" using r by (rule iteration_count(2))
    with xle pow2_tiny have "x \<le> 1 / 20" by simp
    then have nb: "\<not> js_gt (Fin x) (lit 0.05)" by (rule not_js_gt_lit_005)
    have "?stop ?N" unfolding loop_cond_ieee_iff x by (rule nb)
    then show ?thesis by blast
  next
    case False
    then show ?thesis by (meson less_imp_le)
  qed
  then obtain m where m: "m \<le> ?N" "?stop m" by blast
  define n where "n = (LEAST k. ?stop k)"
  have stop: "?stop n" unfolding n_def using m(2) by (rule LeastI)
  have "n \<le> m" unfolding n_def using m(2) by (rule Least_le)
  with m(1) have le: "n \<le> ?N" by simp
  have run: "\<forall>k<n. loop_cond_ieee ((?B ^^ k) (g, d, lit 58))"
  proof (intro allI impI)
    fix k assume "k < n"
    then have "\<not> ?stop k" unfolding n_def by (rule not_less_Least)
    then show "loop_cond_ieee ((?B ^^ k) (g, d, lit 58))" by simp
  qed
  have "loop_cond_ieee ((?B ^^ 0) (g, d, lit 58))"
    by (simp add: loop_cond_ieee_def lit_def fl64_58 fl64_005)
  with stop have "n \<noteq> 0" by (metis)
  then have "1 \<le> n" by simp
  with le run stop show ?thesis by blast
qed

text \<open>
  The accumulator: \<open>Math.max\<close> returns \<open>NaN\<close> when an argument is \<open>NaN\<close>, and otherwise does
  not go below its first argument.
\<close>

lemma math_max_ge:
  "d = NaN \<or> js_ge d d0 \<Longrightarrow> math_max d m = NaN \<or> js_ge (math_max d m) d0"
  by (cases d; cases m; cases d0) (auto simp: math_max_def js_ge_def)

lemma funpow_body_ieee_d:
  "fst (snd st) = NaN \<or> js_ge (fst (snd st)) d0 \<Longrightarrow>
   fst (snd ((loop_body_ieee h scale rot pulse t ^^ n) st)) = NaN
   \<or> js_ge (fst (snd ((loop_body_ieee h scale rot pulse t ^^ n) st))) d0"
proof (induction n)
  case 0
  then show ?case by simp
next
  case (Suc n)
  obtain m where "fst (snd ((loop_body_ieee h scale rot pulse t ^^ Suc n) st))
      = math_max (fst (snd ((loop_body_ieee h scale rot pulse t ^^ n) st))) m"
    using loop_body_ieee_d [of h scale rot pulse t "(loop_body_ieee h scale rot pulse t ^^ n) st"]
    by auto
  with Suc show ?case by (simp only: math_max_ge)
qed

lemma js_ge_refl: "a = NaN \<or> js_ge a a"
  by (cases a) (simp_all add: js_ge_def)

section \<open>Passes and the value returned, in IEEE arithmetic\<close>

text \<open>
  The roundings that the examples of this section meet, with the fractions in lowest
  terms. The literal \<open>0.9\<close> is the double \<open>8106479329266893 / 2 ^ 53\<close>, and \<open>58 * 0.9\<close> rounds
  to \<open>3673248446074061 / 2 ^ 46\<close>, a little above \<open>52.2\<close>; \<open>58 * 0.9 - 58\<close> and \<open>58 * 0.9 - 57\<close>
  are doubles, stored in a \<open>Float32Array\<close> as \<open>-6081741 / 2 ^ 20\<close> and \<open>-5033165 / 2 ^ 20\<close>.
  The literal \<open>0.37\<close> is the double \<open>3332663724254167 / 2 ^ 53\<close>. The number
  \<open>1073741825 / 1073741824\<close> is \<open>1 + 2 ^ (-30)\<close>, a double that a \<open>Float32Array\<close> stores as 1,
  and \<open>2 ^ 128\<close> is a double beyond the single-precision range.
\<close>

lemma fl64_09: "fl64 (9 / 10) = Fin (8106479329266893 / 9007199254740992)"
  by (rule fl64_eval [where e = "- 1"]) (simp_all add: pow2_def round_half_even_def)

lemma fl64_i9: "fl64 (235087900548739897 / 4503599627370496) = Fin (3673248446074061 / 70368744177664)"
  by (rule fl64_eval [where e = 5]) (simp_all add: pow2_def round_half_even_def)

lemma fl64_2: "fl64 2 = Fin 2"
  by (rule fl64_eval [where e = 1]) (simp_all add: pow2_def round_half_even_def)

lemma fl64_116: "fl64 116 = Fin 116"
  by (rule fl64_eval [where e = 6]) (simp_all add: pow2_def round_half_even_def)

lemma fl64_115: "fl64 115 = Fin 115"
  by (rule fl64_eval [where e = 6]) (simp_all add: pow2_def round_half_even_def)

lemma fl64_57: "fl64 57 = Fin 57"
  by (rule fl64_eval [where e = 5]) (simp_all add: pow2_def round_half_even_def)

lemma fl64_minus_5: "fl64 (- 5) = Fin (- 5)"
  by (rule fl64_eval [where e = 2]) (simp_all add: pow2_def round_half_even_def)

lemma fl64_minus_58: "fl64 (- 58) = Fin (- 58)"
  by (rule fl64_eval [where e = 5]) (simp_all add: pow2_def round_half_even_def)

lemma fl64_i9_minus_58: "fl64 (- (408138716230451 / 70368744177664)) = Fin (- (408138716230451 / 70368744177664))"
  by (rule fl64_eval [where e = 2]) (simp_all add: pow2_def round_half_even_def)

lemma fl64_i9_minus_57: "fl64 (- (337769972052787 / 70368744177664)) = Fin (- (337769972052787 / 70368744177664))"
  by (rule fl64_eval [where e = 2]) (simp_all add: pow2_def round_half_even_def)

lemma fl32_i9_minus_58: "fl32 (- (408138716230451 / 70368744177664)) = Fin (- (6081741 / 1048576))"
  by (rule fl32_eval [where e = 2]) (simp_all add: pow2_def round_half_even_def)

lemma fl32_i9_minus_57: "fl32 (- (337769972052787 / 70368744177664)) = Fin (- (5033165 / 1048576))"
  by (rule fl32_eval [where e = 2]) (simp_all add: pow2_def round_half_even_def)

lemma fl64_scale: "fl64 (1 / 2048) = Fin (1 / 2048)"
  by (rule fl64_eval [where e = "- 11"]) (simp_all add: pow2_def round_half_even_def)

lemma fl64_29_1024: "fl64 (29 / 1024) = Fin (29 / 1024)"
  by (rule fl64_eval [where e = "- 6"]) (simp_all add: pow2_def round_half_even_def)

lemma fl32_minus_1: "fl32 (- 1) = Fin (- 1)"
  by (rule fl32_eval [where e = 0]) (simp_all add: pow2_def round_half_even_def)

lemma fl64_py: "fl64 (- (1073741825 / 1073741824)) = Fin (- (1073741825 / 1073741824))"
  by (rule fl64_eval [where e = 0]) (simp_all add: pow2_def round_half_even_def)

lemma fl32_py: "fl32 (- (1073741825 / 1073741824)) = Fin (- 1)"
  by (rule fl32_eval [where e = 0]) (simp_all add: pow2_def round_half_even_def)




lemma fl32_5: "fl32 5 = Fin 5"
  by (rule fl32_eval [where e = 2]) (simp_all add: pow2_def round_half_even_def)





lemma while_loop_ieee_one_pass:
  assumes "loop_cond_ieee st" and "\<not> loop_cond_ieee (loop_body_ieee h scale rot pulse t st)"
  shows "while_loop_ieee h scale rot pulse t st = Some (loop_body_ieee h scale rot pulse t st)"
  using assms by (subst while_loop_ieee.simps, subst while_loop_ieee.simps) simp

lemma loop_cond_ieee_entry: "loop_cond_ieee (g, d, Fin 58)"
  by (simp add: loop_cond_ieee_def lit_def fl64_005)

lemma loop_cond_ieee_small: "\<not> loop_cond_ieee (g, d, Fin (29 / 1024))"
  by (simp add: loop_cond_ieee_def lit_def fl64_005)




lemma getPlanet1Distance_ieee_returns:
  fixes uniforms :: js_uniforms and g :: js_globals and p_vec :: f32buf3
  defines "rot \<equiv> nullish_ieee (uniforms ''slider_fractalRotation'') (lit 1.09)"
    and "pulse \<equiv> nullish_ieee (uniforms ''slider_fractalPulseStrength'') (lit 0.0)"
  defines "entry \<equiv> (g\<lparr>temp_q_ieee := f32_store3 p_vec\<rparr>, js_neg (f32_store (el1 p_vec)), lit 58)"
  assumes "nullish_ieee (uniforms ''slider_fractalScale'') (lit 0.37) = Fin s"
    and "fl64 s = Fin s" and "0 < s" and "s < 1"
  shows "\<exists>n. 1 \<le> n \<and> n \<le> nat \<lceil>ln (0.05 / 58) / ln (s * (1 + 1 / 2 ^ 53))\<rceil>
           \<and> (\<forall>k<n. loop_cond_ieee ((loop_body_ieee h (Fin s) rot pulse t ^^ k) entry))
           \<and> \<not> loop_cond_ieee ((loop_body_ieee h (Fin s) rot pulse t ^^ n) entry)
           \<and> getPlanet1Distance_ieee h g p_vec uniforms t
               = Some (fst (snd ((loop_body_ieee h (Fin s) rot pulse t ^^ n) entry)),
                       fst ((loop_body_ieee h (Fin s) rot pulse t ^^ n) entry))"
proof -
  let ?B = "loop_body_ieee h (Fin s) rot pulse t"
  from loop_ieee_exit [OF assms(5-7)] obtain n
    where n: "1 \<le> n" "n \<le> nat \<lceil>ln (0.05 / 58) / ln (s * (1 + 1 / 2 ^ 53))\<rceil>"
      and run: "\<forall>k<n. loop_cond_ieee ((?B ^^ k) entry)"
      and stop: "\<not> loop_cond_ieee ((?B ^^ n) entry)"
    unfolding entry_def by blast
  have "while_loop_ieee h (Fin s) rot pulse t entry = Some ((?B ^^ n) entry)"
    using run stop by (rule while_loop_ieee_exit)
  then have "getPlanet1Distance_ieee h g p_vec uniforms t
      = Some (fst (snd ((?B ^^ n) entry)), fst ((?B ^^ n) entry))"
    unfolding getPlanet1Distance_ieee_loop assms(4) rot_def pulse_def entry_def
    by (simp add: case_prod_beta)
  with n run stop show ?thesis by blast
qed





lemma mod_fold_abs_ieee_0_58: "mod_fold_abs_ieee (Fin 0) (Fin 116) (Fin 58) = Fin 58"
  by (simp add: mod_fold_abs_ieee_def Let_def js_sub_def js_rem_def trunc_def fl64_116 fl64_minus_58)

lemma js_rem_minus_1_116: "js_rem (- 1) 116 = - 1"
proof -
  have "\<lceil>- (1 / 116 :: real)\<rceil> = 0" by (simp add: ceiling_eq_iff)
  then show ?thesis by (simp add: js_rem_def trunc_def)
qed

lemma js_rem_115_116: "js_rem 115 116 = 115"
  by (simp add: js_rem_def trunc_def)

lemma mod_fold_abs_ieee_minus_1_58: "mod_fold_abs_ieee (Fin (- 1)) (Fin 116) (Fin 58) = Fin 57"
  by (simp add: mod_fold_abs_ieee_def Let_def js_sub_def js_rem_minus_1_116 js_rem_115_116
      fl64_115 fl64_57)

text \<open>
  A point whose \<open>y\<close> is a double but not a single-precision number,
  \<open>p = [0, -(1 + 2 ^ (-30)), 0]\<close>, with the scale \<open>1 / 2048\<close>, rotation 0, pulse strength 0 and
  \<open>t = 5\<close>: the store \<open>temp_q[1] = p_vec[1]\<close> leaves \<open>-1\<close>, so \<open>d\<close> starts from 1; the argument
  of the first \<open>Math.sin\<close> is \<open>5 * 1 + (-1) * 5 = 0\<close>, the angle is 0, and the one pass computes
  \<open>58 * 0.9 - 58\<close> and \<open>58 * 0.9 - 57\<close>, both negative.
\<close>

lemma one_pass_rounded:
  "loop_body_ieee h (Fin (1 / 2048)) (Fin 0) (Fin 0) (Fin 5)
     (g\<lparr>temp_q_ieee := \<lparr>el0 = Fin 0, el1 = Fin (- 1), el2 = Fin 0\<rparr>\<rparr>, Fin 1, Fin 58)
   = (\<lparr>temp_q_ieee = \<lparr>el0 = Fin (- (6081741 / 1048576)), el1 = Fin (- (5033165 / 1048576)),
                        el2 = Fin (- (6081741 / 1048576))\<rparr>,
       temp_q_rot_ieee = \<lparr>el0 = Fin 0, el1 = Fin (- 1), el2 = Fin 0\<rparr>\<rparr>, Fin 1, Fin (29 / 1024))"
  by (cases g)
    (simp add: loop_body_ieee_def Let_def lit_def fl64_0 fl64_1 fl64_5 fl64_minus_5 fl64_116
      fl64_29_1024 fl64_09 fl64_i9 fl64_i9_minus_58 fl64_i9_minus_57 fl32_i9_minus_58
      fl32_i9_minus_57 fl32_0 fl32_minus_1 mod_fold_abs_ieee_0_58 mod_fold_abs_ieee_minus_1_58
      js_sub_def math_max_def math_min_def f32buf3_overwrite)

lemma getPlanet1Distance_ieee_rounded:
  "getPlanet1Distance_ieee h g \<lparr>el0 = Fin 0, el1 = Fin (- (1073741825 / 1073741824)), el2 = Fin 0\<rparr>
     [''slider_fractalScale'' \<mapsto> Fin (1 / 2048), ''slider_fractalRotation'' \<mapsto> Fin 0,
      ''slider_fractalPulseStrength'' \<mapsto> Fin 0] (Fin 5)
   = Some (Fin 1,
       \<lparr>temp_q_ieee = \<lparr>el0 = Fin (- (6081741 / 1048576)), el1 = Fin (- (5033165 / 1048576)),
                        el2 = Fin (- (6081741 / 1048576))\<rparr>,
        temp_q_rot_ieee = \<lparr>el0 = Fin 0, el1 = Fin (- 1), el2 = Fin 0\<rparr>\<rparr>)"
proof -
  let ?entry = "(g\<lparr>temp_q_ieee := \<lparr>el0 = Fin 0, el1 = Fin (- 1), el2 = Fin 0\<rparr>\<rparr>, Fin 1, Fin 58)"
  have "while_loop_ieee h (Fin (1 / 2048)) (Fin 0) (Fin 0) (Fin 5) ?entry
      = Some (loop_body_ieee h (Fin (1 / 2048)) (Fin 0) (Fin 0) (Fin 5) ?entry)"
    by (rule while_loop_ieee_one_pass)
      (simp_all only: one_pass_rounded loop_cond_ieee_entry loop_cond_ieee_small not_False_eq_True)
  then have "while_loop_ieee h (Fin (1 / 2048)) (Fin 0) (Fin 0) (Fin 5) ?entry
      = Some (\<lparr>temp_q_ieee = \<lparr>el0 = Fin (- (6081741 / 1048576)), el1 = Fin (- (5033165 / 1048576)),
                        el2 = Fin (- (6081741 / 1048576))\<rparr>,
               temp_q_rot_ieee = \<lparr>el0 = Fin 0, el1 = Fin (- 1), el2 = Fin 0\<rparr>\<rparr>, Fin 1, Fin (29 / 1024))"
    by (simp only: one_pass_rounded)
  moreover have "f32_store3 \<lparr>el0 = Fin 0, el1 = Fin (- (1073741825 / 1073741824)), el2 = Fin 0\<rparr>
      = \<lparr>el0 = Fin 0, el1 = Fin (- 1), el2 = Fin 0\<rparr>"
    by (simp add: f32_store3_def fl32_0 fl32_py)
  ultimately show ?thesis
    unfolding getPlanet1Distance_ieee_loop
    by (simp add: nullish_ieee_def fl32_py lit_58)
qed

text \<open>
  C10, as amended. For every point, uniforms and time whose resolved scale is a double
  strictly between 0 and 1, the call returns, and the value returned is \<open>NaN\<close> or is
  greater than or equal to the negation of \<open>p.y\<close> as stored in the \<open>Float32Array\<close>
  \<open>temp_q\<close>; so it is \<open>NaN\<close> or at least \<open>-p.y\<close> when that store leaves \<open>p.y\<close> unchanged.
\<close>

theorem getPlanet1Distance_ieee_lower_bound:
  fixes uniforms :: js_uniforms
  assumes "nullish_ieee (uniforms ''slider_fractalScale'') (lit 0.37) = Fin s"
    and "fl64 s = Fin s" and "0 < s" and "s < 1"
  shows "\<exists>d g'. getPlanet1Distance_ieee h g p_vec uniforms t = Some (d, g')
           \<and> (d = NaN \<or> js_ge d (js_neg (f32_store (el1 p_vec))))
           \<and> (f32_store (el1 p_vec) = el1 p_vec \<longrightarrow> d = NaN \<or> js_ge d (js_neg (el1 p_vec)))"
proof -
  let ?B = "loop_body_ieee h (Fin s) (nullish_ieee (uniforms ''slider_fractalRotation'') (lit 1.09))
              (nullish_ieee (uniforms ''slider_fractalPulseStrength'') (lit 0.0)) t"
  let ?d0 = "js_neg (f32_store (el1 p_vec))"
  let ?entry = "(g\<lparr>temp_q_ieee := f32_store3 p_vec\<rparr>, ?d0, lit 58)"
  from getPlanet1Distance_ieee_returns [where uniforms = uniforms and s = s and h = h and g = g
      and p_vec = p_vec and t = t, OF assms] obtain n
    where r: "getPlanet1Distance_ieee h g p_vec uniforms t
            = Some (fst (snd ((?B ^^ n) ?entry)), fst ((?B ^^ n) ?entry))"
    by blast
  have "fst (snd ?entry) = NaN \<or> js_ge (fst (snd ?entry)) ?d0"
    using js_ge_refl [of ?d0] by simp
  then have "fst (snd ((?B ^^ n) ?entry)) = NaN \<or> js_ge (fst (snd ((?B ^^ n) ?entry))) ?d0"
    by (rule funpow_body_ieee_d)
  with r show ?thesis by auto
qed

theorem getPlanet1Distance_ieee_lower_bound_witness:
  "nullish_ieee ([''slider_fractalScale'' \<mapsto> Fin (1 / 2)] ''slider_fractalScale'') (lit 0.37) = Fin (1 / 2)
   \<and> fl64 (1 / 2) = Fin (1 / 2) \<and> (0::real) < 1 / 2 \<and> (1 / 2 :: real) < 1
   \<and> f32_store (Fin 5) = Fin 5
   \<and> (\<exists>d g'. getPlanet1Distance_ieee \<lparr>host_sin = sin, host_cos = cos\<rparr>
          \<lparr>temp_q_ieee = \<lparr>el0 = Fin 0, el1 = Fin 0, el2 = Fin 0\<rparr>,
           temp_q_rot_ieee = \<lparr>el0 = Fin 0, el1 = Fin 0, el2 = Fin 0\<rparr>\<rparr>
          \<lparr>el0 = Fin 0, el1 = Fin 5, el2 = Fin 0\<rparr> [''slider_fractalScale'' \<mapsto> Fin (1 / 2)] (Fin 0)
            = Some (d, g')
          \<and> (d = NaN \<or> js_ge d (Fin (- 5))))"
proof -
  have s: "nullish_ieee ([''slider_fractalScale'' \<mapsto> Fin (1 / 2)] ''slider_fractalScale'') (lit 0.37)
         = Fin (1 / 2)"
    by (simp add: nullish_ieee_def)
  have b: "(0::real) < 1 / 2" "(1 / 2 :: real) < 1"
    by simp_all
  have f: "f32_store (Fin 5) = Fin 5"
    by (simp add: fl32_5)
  from getPlanet1Distance_ieee_lower_bound [where s = "1 / 2"
        and uniforms = "[''slider_fractalScale'' \<mapsto> Fin (1 / 2)]", OF s fl64_half b,
      where h = "\<lparr>host_sin = sin, host_cos = cos\<rparr>" and t = "Fin 0"
        and p_vec = "\<lparr>el0 = Fin 0, el1 = Fin 5, el2 = Fin 0\<rparr>"
        and g = "\<lparr>temp_q_ieee = \<lparr>el0 = Fin 0, el1 = Fin 0, el2 = Fin 0\<rparr>,
                  temp_q_rot_ieee = \<lparr>el0 = Fin 0, el1 = Fin 0, el2 = Fin 0\<rparr>\<rparr>"]
  obtain d g' where r: "getPlanet1Distance_ieee \<lparr>host_sin = sin, host_cos = cos\<rparr>
          \<lparr>temp_q_ieee = \<lparr>el0 = Fin 0, el1 = Fin 0, el2 = Fin 0\<rparr>,
           temp_q_rot_ieee = \<lparr>el0 = Fin 0, el1 = Fin 0, el2 = Fin 0\<rparr>\<rparr>
          \<lparr>el0 = Fin 0, el1 = Fin 5, el2 = Fin 0\<rparr> [''slider_fractalScale'' \<mapsto> Fin (1 / 2)] (Fin 0)
            = Some (d, g')"
      and "f32_store (el1 \<lparr>el0 = Fin 0, el1 = Fin 5, el2 = Fin 0\<rparr>) = el1 \<lparr>el0 = Fin 0, el1 = Fin 5, el2 = Fin 0\<rparr>
            \<longrightarrow> d = NaN \<or> js_ge d (js_neg (el1 \<lparr>el0 = Fin 0, el1 = Fin 5, el2 = Fin 0\<rparr>))"
    by blast
  then have "d = NaN \<or> js_ge d (Fin (- 5))" using f by simp
  with r have "\<exists>d g'. getPlanet1Distance_ieee \<lparr>host_sin = sin, host_cos = cos\<rparr>
          \<lparr>temp_q_ieee = \<lparr>el0 = Fin 0, el1 = Fin 0, el2 = Fin 0\<rparr>,
           temp_q_rot_ieee = \<lparr>el0 = Fin 0, el1 = Fin 0, el2 = Fin 0\<rparr>\<rparr>
          \<lparr>el0 = Fin 0, el1 = Fin 5, el2 = Fin 0\<rparr> [''slider_fractalScale'' \<mapsto> Fin (1 / 2)] (Fin 0)
            = Some (d, g')
          \<and> (d = NaN \<or> js_ge d (Fin (- 5)))"
    by blast
  with s fl64_half f show ?thesis by simp
qed

text \<open>
  C10, as stated, fails: the result can be below \<open>-p.y\<close>. At
  \<open>p = [0, -(1 + 2 ^ (-30)), 0]\<close> (a double), scale \<open>1 / 2048\<close>, rotation 0, pulse strength 0
  and \<open>t = 5\<close> the call returns 1, which is less than \<open>-p.y = 1 + 2 ^ (-30)\<close>, whatever
  \<open>Math.sin\<close> and \<open>Math.cos\<close> of the host are and whatever the buffers held.
\<close>

theorem getPlanet1Distance_ieee_lower_bound_counterexample:
  "fl64 (- (1 + 1 / 2 ^ 30)) = Fin (- (1 + 1 / 2 ^ 30))
   \<and> fl64 (1 / 2048) = Fin (1 / 2048) \<and> (0::real) < 1 / 2048 \<and> (1 / 2048 :: real) < 1
   \<and> (\<forall>h g. \<exists>g'. getPlanet1Distance_ieee h g \<lparr>el0 = Fin 0, el1 = Fin (- (1 + 1 / 2 ^ 30)), el2 = Fin 0\<rparr>
                [''slider_fractalScale'' \<mapsto> Fin (1 / 2048), ''slider_fractalRotation'' \<mapsto> Fin 0,
                 ''slider_fractalPulseStrength'' \<mapsto> Fin 0] (Fin 5)
              = Some (Fin 1, g'))
   \<and> \<not> js_ge (Fin 1) (js_neg (Fin (- (1 + 1 / 2 ^ 30))))"
  by (simp add: fl64_py fl64_scale getPlanet1Distance_ieee_rounded js_ge_def)

text \<open>
  The rounding of \<open>i * scale\<close> can also save a pass. At the scale
  \<open>0.0008620689655172415\<close>, the double \<open>7951182790392049 / 2 ^ 63\<close>, the product
  \<open>58 * scale\<close> is above \<open>1 / 20\<close> and rounds to the double \<open>0.05\<close>: the loop makes one
  pass, where \<open>ceil (ln (0.05 / 58) / ln scale)\<close> is 2.
\<close>

lemma fl64_scale_near: "fl64 (7951182790392049 / 9223372036854775808) = Fin (7951182790392049 / 9223372036854775808)"
  by (rule fl64_eval [where e = "- 11"]) (simp_all add: pow2_def round_half_even_def)

lemma fl64_58_scale_near: "fl64 (230584300921369421 / 4611686018427387904) = Fin (3602879701896397 / 72057594037927936)"
  by (rule fl64_eval [where e = "- 5"]) (simp_all add: pow2_def round_half_even_def)

lemma one_pass_where_two_documented:
  "fl64 (7951182790392049 / 9223372036854775808) = Fin (7951182790392049 / 9223372036854775808)
   \<and> nat \<lceil>ln (0.05 / 58) / ln (7951182790392049 / 9223372036854775808 :: real)\<rceil> = 2
   \<and> loop_cond_ieee (g, d, lit 58)
   \<and> \<not> loop_cond_ieee (loop_body_ieee h (Fin (7951182790392049 / 9223372036854775808)) rot pulse t (g, d, lit 58))"
proof -
  have "58 * (7951182790392049 / 9223372036854775808 :: real) ^ 1 > 0.05" by simp
  then have a: "1 < ln (0.05 / 58) / ln (7951182790392049 / 9223372036854775808 :: real)"
    using lattice_gt_iff [of "7951182790392049 / 9223372036854775808" 1] by simp
  have "\<not> 58 * (7951182790392049 / 9223372036854775808 :: real) ^ 2 > 0.05" by (simp add: power2_eq_square)
  then have b: "ln (0.05 / 58) / ln (7951182790392049 / 9223372036854775808 :: real) \<le> 2"
    using lattice_gt_iff [of "7951182790392049 / 9223372036854775808" 2] by simp
  from a b have "\<lceil>ln (0.05 / 58) / ln (7951182790392049 / 9223372036854775808 :: real)\<rceil> = 2"
    by (intro ceiling_unique) simp_all
  then have "nat \<lceil>ln (0.05 / 58) / ln (7951182790392049 / 9223372036854775808 :: real)\<rceil> = 2" by simp
  moreover have "loop_cond_ieee (g, d, lit 58)"
    by (simp add: loop_cond_ieee_def lit_def fl64_58 fl64_005)
  moreover have "\<not> loop_cond_ieee (loop_body_ieee h (Fin (7951182790392049 / 9223372036854775808)) rot pulse t (g, d, lit 58))"
    by (simp add: loop_cond_ieee_iff loop_body_ieee_i lit_def fl64_58 fl64_005 fl64_58_scale_near)
  ultimately show ?thesis by (simp add: fl64_scale_near)
qed

section \<open>The source's loop against the specification's iteration\<close>

lemma js_mul_commute: "js_mul a b = js_mul b a"
  by (cases a; cases b) (simp_all add: mult.commute)

lemma js_mul_lit_1: "is_double t \<Longrightarrow> js_mul t (lit 1.0) = t"
  by (cases t) (simp_all add: is_double_def lit_def fl64_1)

lemma js_mul_lit_2: "js_mul (lit 2) i = js_add i i"
  by (cases i) (simp_all add: lit_def fl64_2)

text \<open>
  The form \<open>((v % m) + m) % m\<close> of the true modulo: over the reals, where nothing is
  rounded, it is the remainder of the floored division.
\<close>

lemma js_rem_floored:
  assumes "0 < y"
  shows "js_rem (js_rem v y + y) y = v - y * of_int \<lfloor>v / y\<rfloor>"
proof -
  define k where "k = trunc (v / y) - 1 + trunc ((js_rem v y + y) / y)"
  have "js_rem v y + y - y * of_int m = v - y * of_int (trunc (v / y) - 1 + m)" for m
    by (simp add: js_rem_def algebra_simps)
  then have r: "js_rem (js_rem v y + y) y = v - y * of_int k"
    unfolding k_def by (subst js_rem_def) simp
  have "0 \<le> v - y * of_int k" and "v - y * of_int k < y"
    using true_mod_range [OF assms, of v] by (simp_all only: r)
  then have "of_int k \<le> v / y" and "v / y < of_int k + 1"
    using assms by (simp_all add: field_simps)
  then have "\<lfloor>v / y\<rfloor> = k" by (rule floor_unique)
  then show ?thesis by (simp add: r)
qed

text \<open>
  The fold of the source is the fold of the specification, and a pass of the source's
  loop is a step of the specification's iteration with single-precision vectors:
  \<open>i + i\<close> is \<open>2 * i\<close>, \<open>i * 0.9\<close> is \<open>0.9 * i\<close>, and \<open>t * 1.0\<close> is \<open>t\<close>.
\<close>

lemma mod_fold_abs_ieee_spec: "mod_fold_abs_ieee v (js_add i i) i = spec_fold i v"
  by (simp add: mod_fold_abs_ieee_def spec_fold_def spec_true_mod_def js_mul_lit_2 Let_def)

lemma cond_commute: "loop_cond_ieee st \<longleftrightarrow> js_gt (snd (snd (working_state st))) (lit 0.05)"
  by (cases st) (simp add: loop_cond_ieee_def working_state_def)

lemma body_commute:
  assumes "is_double t"
  shows "working_state (loop_body_ieee h (fp_scale params) (fp_rotation params) (fp_pulseStrength params) t st)
       = spec_step h f32_store params t (working_state st)"
proof (cases st)
  case (fields g d i)
  show ?thesis
    unfolding fields
    by (simp add: working_state_def loop_body_ieee_def spec_step_def spec_rotateY_def Let_def
        mod_fold_abs_ieee_spec js_mul_lit_1 [OF assms, simplified] js_mul_commute [of i])
qed

lemma funpow_commute:
  assumes "is_double t"
  shows "working_state ((loop_body_ieee h (fp_scale params) (fp_rotation params) (fp_pulseStrength params) t ^^ n) st)
       = (spec_step h f32_store params t ^^ n) (working_state st)"
  by (induction n) (simp_all add: body_commute [OF assms])

lemma spec_while_funpow:
  "(\<forall>k<n. js_gt (snd (snd ((step ^^ k) st))) (lit 0.05)) \<Longrightarrow>
   spec_while step st = spec_while step ((step ^^ n) st)"
proof (induction n)
  case 0
  show ?case by simp
next
  case (Suc n)
  then have g: "js_gt (snd (snd ((step ^^ n) st))) (lit 0.05)"
    and "spec_while step st = spec_while step ((step ^^ n) st)"
    by simp_all
  then show ?case
    by (subst (asm) (2) spec_while.simps) simp
qed

lemma spec_while_exit:
  assumes "\<forall>k<n. js_gt (snd (snd ((step ^^ k) st))) (lit 0.05)"
    and "\<not> js_gt (snd (snd ((step ^^ n) st))) (lit 0.05)"
  shows "spec_while step st = Some ((step ^^ n) st)"
  using spec_while_funpow [OF assms(1)] assms(2)
  by (subst (asm) (2) spec_while.simps) simp

lemma spec_while_simulates:
  assumes "is_double t"
    and "\<forall>k<n. loop_cond_ieee ((loop_body_ieee h (fp_scale params) (fp_rotation params) (fp_pulseStrength params) t ^^ k) st)"
    and "\<not> loop_cond_ieee ((loop_body_ieee h (fp_scale params) (fp_rotation params) (fp_pulseStrength params) t ^^ n) st)"
  shows "spec_while (spec_step h f32_store params t) (working_state st)
       = Some (working_state ((loop_body_ieee h (fp_scale params) (fp_rotation params) (fp_pulseStrength params) t ^^ n) st))"
proof -
  let ?B = "loop_body_ieee h (fp_scale params) (fp_rotation params) (fp_pulseStrength params) t"
  let ?S = "spec_step h f32_store params t"
  have c: "working_state ((?B ^^ k) st) = (?S ^^ k) (working_state st)" for k
    using assms(1) by (rule funpow_commute)
  have "\<forall>k<n. js_gt (snd (snd ((?S ^^ k) (working_state st)))) (lit 0.05)"
    using assms(2) by (simp add: cond_commute c)
  moreover have "\<not> js_gt (snd (snd ((?S ^^ n) (working_state st)))) (lit 0.05)"
    using assms(3) by (simp add: cond_commute c)
  ultimately have "spec_while ?S (working_state st) = Some ((?S ^^ n) (working_state st))"
    by (rule spec_while_exit)
  then show ?thesis by (simp only: c)
qed

text \<open>
  C3, as amended. For every point, uniforms and time (a double, an infinity or \<open>NaN\<close>)
  whose resolved scale is a double strictly between 0 and 1, \<open>getPlanet1Distance\<close>
  returns, and what it returns is the result of the specified iteration carried out in
  the arithmetic of the source: every operation a double operation, every component of
  the working point and of the rotated point rounded to single precision, \<open>d\<close> started
  from the rounded \<open>p.y\<close>.
\<close>

theorem getPlanet1Distance_ieee_refines_spec:
  fixes uniforms :: js_uniforms
  assumes "is_double t"
    and "nullish_ieee (uniforms ''slider_fractalScale'') (lit 0.37) = Fin s"
    and "fl64 s = Fin s" and "0 < s" and "s < 1"
  shows "\<exists>d g'. getPlanet1Distance_ieee h g p_vec uniforms t = Some (d, g')
           \<and> spec_DistanceField h f32_store (el0 p_vec, el1 p_vec, el2 p_vec)
                (resolved_params uniforms) t = Some d"
proof -
  let ?params = "resolved_params uniforms"
  let ?B = "loop_body_ieee h (fp_scale ?params) (fp_rotation ?params) (fp_pulseStrength ?params) t"
  let ?entry = "(g\<lparr>temp_q_ieee := f32_store3 p_vec\<rparr>, js_neg (f32_store (el1 p_vec)), lit 58)"
  have sc: "fp_scale ?params = Fin s" using assms(2) by (simp add: resolved_params_def)
  from getPlanet1Distance_ieee_returns [where uniforms = uniforms and s = s and h = h and g = g
      and p_vec = p_vec and t = t, OF assms(2-5)]
  obtain n where run: "\<forall>k<n. loop_cond_ieee ((?B ^^ k) ?entry)"
    and stop: "\<not> loop_cond_ieee ((?B ^^ n) ?entry)"
    and code: "getPlanet1Distance_ieee h g p_vec uniforms t
             = Some (fst (snd ((?B ^^ n) ?entry)), fst ((?B ^^ n) ?entry))"
    unfolding sc by (auto simp: resolved_params_def)
  have "spec_while (spec_step h f32_store ?params t) (working_state ?entry)
      = Some (working_state ((?B ^^ n) ?entry))"
    using assms(1) run stop by (rule spec_while_simulates)
  moreover have "working_state ?entry
      = ((f32_store (el0 p_vec), f32_store (el1 p_vec), f32_store (el2 p_vec)),
         js_neg (f32_store (el1 p_vec)), lit 58)"
    by (simp add: working_state_def f32_store3_def)
  ultimately have "spec_DistanceField h f32_store (el0 p_vec, el1 p_vec, el2 p_vec) ?params t
      = Some (fst (snd ((?B ^^ n) ?entry)))"
    by (simp add: spec_DistanceField_def working_state_def case_prod_beta)
  with code show ?thesis by blast
qed

lemma fl64_minus_5py: "fl64 (- (5368709125 / 1073741824)) = Fin (- (5368709125 / 1073741824))"
  by (rule fl64_eval [where e = 2]) (simp_all add: pow2_def round_half_even_def)

lemma fl64_sin_arg: "fl64 (- (5 / 1073741824)) = Fin (- (5 / 1073741824))"
  by (rule fl64_eval [where e = "- 28"]) (simp_all add: pow2_def round_half_even_def)

lemma fl64_116_minus_py: "fl64 (123480309759 / 1073741824) = Fin (123480309759 / 1073741824)"
  by (rule fl64_eval [where e = 6]) (simp_all add: pow2_def round_half_even_def)

lemma fl64_fold_py: "fl64 (61203283967 / 1073741824) = Fin (61203283967 / 1073741824)"
  by (rule fl64_eval [where e = 5]) (simp_all add: pow2_def round_half_even_def)

lemma fl64_i9_minus_fold_py: "fl64 (- (337769971987251 / 70368744177664)) = Fin (- (337769971987251 / 70368744177664))"
  by (rule fl64_eval [where e = 2]) (simp_all add: pow2_def round_half_even_def)


text \<open>
  A number of magnitude at most 1 rounds to a finite double.
\<close>

lemma fl64_finite:
  assumes "\<bar>x\<bar> \<le> 1"
  shows "\<exists>y. fl64 x = Fin y"
proof (cases "x = 0")
  case True
  then show ?thesis by (simp add: fl64_0)
next
  case False
  define q where "q = pow2 (max (- 1022) \<lfloor>log 2 \<bar>x\<bar>\<rfloor> - 52)"
  define y where "y = of_int (round_half_even (x / q)) * q"
  have r: "fl64 x = (if pow2 (1023 + 1) \<le> \<bar>y\<bar> then (if 0 < x then PInf else NInf) else Fin y)"
    and err: "\<bar>y - x\<bar> \<le> q / 2"
    unfolding fl64_def y_def q_def by (rule round_to_err [OF False])+
  have "log 2 \<bar>x\<bar> \<le> 0" using False assms by (simp add: log_le_zero_cancel_iff)
  then have "\<lfloor>log 2 \<bar>x\<bar>\<rfloor> \<le> 0" by (simp add: floor_le_iff)
  then have "max (- 1022) \<lfloor>log 2 \<bar>x\<bar>\<rfloor> - 52 \<le> 0" by simp
  then have "q \<le> pow2 0" unfolding q_def by (rule pow2_mono)
  then have "q \<le> 1" by (simp add: pow2_def)
  with err assms have "\<bar>y\<bar> \<le> 2" by linarith
  then have "\<bar>y\<bar> \<le> 2 ^ 64" by simp
  with pow2_64(2) have "\<not> pow2 (1023 + 1) \<le> \<bar>y\<bar>" by simp
  with r show ?thesis by simp
qed

lemma js_rem_minus_py_116: "js_rem (- (1073741825 / 1073741824)) 116 = - (1073741825 / 1073741824)"
proof -
  have "\<lceil>- (1073741825 / 124554051584 :: real)\<rceil> = 0" by (simp add: ceiling_eq_iff)
  then show ?thesis by (simp add: js_rem_def trunc_def)
qed

lemma js_rem_116_minus_py: "js_rem (123480309759 / 1073741824) 116 = 123480309759 / 1073741824"
  by (simp add: js_rem_def trunc_def)

lemma spec_fold_0_58: "spec_fold (Fin 58) (Fin 0) = Fin 58"
  by (simp add: spec_fold_def spec_true_mod_def js_sub_def lit_def fl64_2 fl64_116 fl64_minus_58
      js_rem_def trunc_def)

lemma spec_fold_py_58:
  "spec_fold (Fin 58) (Fin (- (1073741825 / 1073741824))) = Fin (61203283967 / 1073741824)"
  by (simp add: spec_fold_def spec_true_mod_def js_sub_def lit_def fl64_2 fl64_116
      js_rem_minus_py_116 js_rem_116_minus_py fl64_116_minus_py fl64_fold_py)

text \<open>
  The point \<open>p = [0, -(1 + 2 ^ (-30)), 0]\<close> again, with the scale \<open>1 / 2048\<close>, rotation 0, pulse
  strength 0 and \<open>t = 5\<close>: the specified iteration in double arithmetic, without the
  rounding to single precision, for a host whose \<open>Math.sin\<close> and \<open>Math.cos\<close> are the
  correctly rounded sine and cosine.
\<close>

lemma spec_step_py:
  "spec_step \<lparr>host_sin = sin, host_cos = cos\<rparr> (\<lambda>x. x)
     \<lparr>fp_scale = Fin (1 / 2048), fp_rotation = Fin 0, fp_pulseStrength = Fin 0\<rparr> (Fin 5)
     ((Fin 0, Fin (- (1073741825 / 1073741824)), Fin 0), Fin (1073741825 / 1073741824), Fin 58)
   = ((Fin (- (408138716230451 / 70368744177664)), Fin (- (337769971987251 / 70368744177664)),
       Fin (- (408138716230451 / 70368744177664))),
      Fin (1073741825 / 1073741824), Fin (29 / 1024))"
proof -
  have "\<bar>sin (5 / 1073741824 :: real)\<bar> \<le> 1" by simp
  then have "\<bar>- sin (5 / 1073741824 :: real)\<bar> \<le> 1" by simp
  then obtain y where y: "fl64 (- sin (5 / 1073741824)) = Fin y"
    using fl64_finite by blast
  show ?thesis
    by (simp add: spec_step_def spec_rotateY_def Let_def lit_def fl64_0 fl64_5 fl64_minus_5py
        fl64_sin_arg y fl64_09 fl64_i9 fl64_i9_minus_58 fl64_i9_minus_fold_py fl64_29_1024
        spec_fold_0_58 spec_fold_py_58 js_sub_def math_max_def math_min_def)
qed

lemma spec_DistanceField_py:
  "spec_DistanceField \<lparr>host_sin = sin, host_cos = cos\<rparr> (\<lambda>x. x)
     (Fin 0, Fin (- (1073741825 / 1073741824)), Fin 0)
     \<lparr>fp_scale = Fin (1 / 2048), fp_rotation = Fin 0, fp_pulseStrength = Fin 0\<rparr> (Fin 5)
   = Some (Fin (1073741825 / 1073741824))"
proof -
  let ?S = "spec_step \<lparr>host_sin = sin, host_cos = cos\<rparr> (\<lambda>x. x)
     \<lparr>fp_scale = Fin (1 / 2048), fp_rotation = Fin 0, fp_pulseStrength = Fin 0\<rparr> (Fin 5)"
  let ?st = "((Fin 0, Fin (- (1073741825 / 1073741824)), Fin 0), Fin (1073741825 / 1073741824), Fin 58)"
  have "spec_while ?S ?st = Some ((?S ^^ 1) ?st)"
    by (rule spec_while_exit) (simp_all add: spec_step_py lit_def fl64_005)
  then show ?thesis
    by (simp add: spec_DistanceField_def spec_step_py lit_58)
qed

theorem getPlanet1Distance_ieee_refines_spec_witness:
  "is_double (Fin 0)
   \<and> nullish_ieee ([''slider_fractalScale'' \<mapsto> Fin (1 / 2)] ''slider_fractalScale'') (lit 0.37) = Fin (1 / 2)
   \<and> fl64 (1 / 2) = Fin (1 / 2) \<and> (0::real) < 1 / 2 \<and> (1 / 2 :: real) < 1
   \<and> (\<exists>d g'. getPlanet1Distance_ieee \<lparr>host_sin = sin, host_cos = cos\<rparr>
          \<lparr>temp_q_ieee = \<lparr>el0 = Fin 0, el1 = Fin 0, el2 = Fin 0\<rparr>,
           temp_q_rot_ieee = \<lparr>el0 = Fin 0, el1 = Fin 0, el2 = Fin 0\<rparr>\<rparr>
          \<lparr>el0 = Fin 0, el1 = Fin 0, el2 = Fin 5\<rparr> [''slider_fractalScale'' \<mapsto> Fin (1 / 2)] (Fin 0)
            = Some (d, g')
          \<and> spec_DistanceField \<lparr>host_sin = sin, host_cos = cos\<rparr> f32_store (Fin 0, Fin 0, Fin 5)
               (resolved_params [''slider_fractalScale'' \<mapsto> Fin (1 / 2)]) (Fin 0) = Some d)"
proof -
  have t: "is_double (Fin 0)"
    by (simp add: is_double_def fl64_0)
  have s: "nullish_ieee ([''slider_fractalScale'' \<mapsto> Fin (1 / 2)] ''slider_fractalScale'') (lit 0.37)
         = Fin (1 / 2)"
    by (simp add: nullish_ieee_def)
  have b: "(0::real) < 1 / 2" "(1 / 2 :: real) < 1"
    by simp_all
  from getPlanet1Distance_ieee_refines_spec [where s = "1 / 2"
        and uniforms = "[''slider_fractalScale'' \<mapsto> Fin (1 / 2)]" and t = "Fin 0", OF t s fl64_half b,
      where h = "\<lparr>host_sin = sin, host_cos = cos\<rparr>"
        and p_vec = "\<lparr>el0 = Fin 0, el1 = Fin 0, el2 = Fin 5\<rparr>"
        and g = "\<lparr>temp_q_ieee = \<lparr>el0 = Fin 0, el1 = Fin 0, el2 = Fin 0\<rparr>,
                  temp_q_rot_ieee = \<lparr>el0 = Fin 0, el1 = Fin 0, el2 = Fin 0\<rparr>\<rparr>"]
  have "\<exists>d g'. getPlanet1Distance_ieee \<lparr>host_sin = sin, host_cos = cos\<rparr>
          \<lparr>temp_q_ieee = \<lparr>el0 = Fin 0, el1 = Fin 0, el2 = Fin 0\<rparr>,
           temp_q_rot_ieee = \<lparr>el0 = Fin 0, el1 = Fin 0, el2 = Fin 0\<rparr>\<rparr>
          \<lparr>el0 = Fin 0, el1 = Fin 0, el2 = Fin 5\<rparr> [''slider_fractalScale'' \<mapsto> Fin (1 / 2)] (Fin 0)
            = Some (d, g')
          \<and> spec_DistanceField \<lparr>host_sin = sin, host_cos = cos\<rparr> f32_store (Fin 0, Fin 0, Fin 5)
               (resolved_params [''slider_fractalScale'' \<mapsto> Fin (1 / 2)]) (Fin 0) = Some d"
    by simp
  with t s fl64_half show ?thesis by simp
qed

text \<open>
  C3, as stated, fails: the iteration of the specification starts from \<open>q = p\<close> and
  \<open>d = -p.y\<close>, the source from their roundings to single precision. At
  \<open>p = [0, -(1 + 2 ^ (-30)), 0]\<close>, scale \<open>1 / 2048\<close>, rotation 0, pulse strength 0 and \<open>t = 5\<close>
  the iteration as specified returns \<open>1 + 2 ^ (-30)\<close>, and \<open>getPlanet1Distance\<close> returns 1.
\<close>

theorem getPlanet1Distance_ieee_refines_spec_counterexample:
  "spec_DistanceField \<lparr>host_sin = sin, host_cos = cos\<rparr> (\<lambda>x. x)
     (Fin 0, Fin (- (1 + 1 / 2 ^ 30)), Fin 0)
     (resolved_params [''slider_fractalScale'' \<mapsto> Fin (1 / 2048), ''slider_fractalRotation'' \<mapsto> Fin 0,
                       ''slider_fractalPulseStrength'' \<mapsto> Fin 0]) (Fin 5)
     = Some (Fin (1 + 1 / 2 ^ 30))
   \<and> (\<forall>g. \<exists>g'. getPlanet1Distance_ieee \<lparr>host_sin = sin, host_cos = cos\<rparr> g
          \<lparr>el0 = Fin 0, el1 = Fin (- (1 + 1 / 2 ^ 30)), el2 = Fin 0\<rparr>
          [''slider_fractalScale'' \<mapsto> Fin (1 / 2048), ''slider_fractalRotation'' \<mapsto> Fin 0,
           ''slider_fractalPulseStrength'' \<mapsto> Fin 0] (Fin 5)
        = Some (Fin 1, g'))
   \<and> Fin (1 + 1 / 2 ^ 30) \<noteq> Fin 1
   \<and> is_double (Fin 5) \<and> fl64 (- (1 + 1 / 2 ^ 30)) = Fin (- (1 + 1 / 2 ^ 30))
   \<and> fl64 (1 / 2048) = Fin (1 / 2048)"
  by (simp add: resolved_params_def nullish_ieee_def spec_DistanceField_py
      getPlanet1Distance_ieee_rounded is_double_def fl64_5 fl64_py fl64_scale)

section \<open>The modulation tables and the router\<close>

lemma contribution_no_range:
  "\<not> has_range table (target b) \<Longrightarrow> contribution (map_of table) normalized b = 0"
  by (simp add: has_range_def contribution_def map_of_eq_None_iff [symmetric])

lemma filter_disabled:
  assumes "\<forall>b\<in>set bindings. \<not> enabled b"
  shows "filter (\<lambda>b. enabled b \<and> P b) bindings = []"
  using assms by (induction bindings) simp_all

text \<open>
  C8. In \<open>defaultSoundConfig.modulations\<close> the continuous targets of the enabled bindings
  are \<open>'drone.filter'\<close>, \<open>'atmosphere.gain'\<close>, \<open>'drone.pitch'\<close>, \<open>'arp.speed'\<close> and
  \<open>'arp.octaves'\<close>, and each of them has an entry in \<open>MOD_RANGES\<close> (whatever entries follow
  the part of the table the source file shows). A binding whose continuous target has no
  entry in the table contributes \<open>0\<close>, and the router resolves as if the binding were not
  there.
\<close>

theorem default_modulations_in_MOD_RANGES:
  "map target (filter (\<lambda>m. enabled m \<and> continuous_target (target m)) defaultSoundConfig_modulations)
     = [''drone.filter'', ''atmosphere.gain'', ''drone.pitch'', ''arp.speed'', ''arp.octaves'']
   \<and> (\<forall>m\<in>set defaultSoundConfig_modulations.
         enabled m \<and> continuous_target (target m) \<longrightarrow> has_range (MOD_RANGES rest) (target m))
   \<and> (\<not> has_range table (target b) \<longrightarrow> contribution (map_of table) normalized b = 0)
   \<and> (\<not> has_range table (target b) \<and> continuous_target (target b) \<longrightarrow>
         resolve legal thr (map_of table) (b # bindings) normalized baseConfig
           = resolve legal thr (map_of table) bindings normalized baseConfig)"
proof (intro conjI impI)
  show "map target (filter (\<lambda>m. enabled m \<and> continuous_target (target m)) defaultSoundConfig_modulations)
     = [''drone.filter'', ''atmosphere.gain'', ''drone.pitch'', ''arp.speed'', ''arp.octaves'']"
    by (simp add: defaultSoundConfig_modulations_def continuous_target_def)
  show "\<forall>m\<in>set defaultSoundConfig_modulations.
         enabled m \<and> continuous_target (target m) \<longrightarrow> has_range (MOD_RANGES rest) (target m)"
    by (simp add: defaultSoundConfig_modulations_def continuous_target_def has_range_def MOD_RANGES_def)
  show "contribution (map_of table) normalized b = 0" if "\<not> has_range table (target b)"
    using that by (rule contribution_no_range)
  show "resolve legal thr (map_of table) (b # bindings) normalized baseConfig
           = resolve legal thr (map_of table) bindings normalized baseConfig"
    if "\<not> has_range table (target b) \<and> continuous_target (target b)"
    using that by (simp add: resolve_def contribution_no_range fun_eq_iff cong: if_cong)
qed

theorem default_modulations_in_MOD_RANGES_witness:
  "has_range (MOD_RANGES []) ''drone.filter''
   \<and> has_range (MOD_RANGES []) ''arp.octaves''
   \<and> \<not> has_range (MOD_RANGES []) ''reverb.mix''
   \<and> contribution (map_of (MOD_RANGES [])) [''speed'' \<mapsto> 1]
        \<lparr>id' = ''x'', enabled = True, source = ''speed'', target = ''reverb.mix'', amount = 0.5\<rparr> = 0
   \<and> resolve clamp_gains 0.5 (map_of (MOD_RANGES []))
        [\<lparr>id' = ''x'', enabled = True, source = ''speed'', target = ''reverb.mix'', amount = 0.5\<rparr>]
        [''speed'' \<mapsto> 1] defaultSoundConfig_base
      = resolve clamp_gains 0.5 (map_of (MOD_RANGES [])) [] [''speed'' \<mapsto> 1] defaultSoundConfig_base"
  using default_modulations_in_MOD_RANGES
    [where rest = "[]" and table = "MOD_RANGES []" and normalized = "[''speed'' \<mapsto> 1]"
       and b = "\<lparr>id' = ''x'', enabled = True, source = ''speed'', target = ''reverb.mix'', amount = 0.5\<rparr>"
       and legal = clamp_gains and thr = "0.5" and bindings = "[]" and baseConfig = defaultSoundConfig_base]
  by (simp add: defaultSoundConfig_modulations_def continuous_target_def has_range_def MOD_RANGES_def)

text \<open>
  C9, as amended. When every binding has \<open>enabled = false\<close>, the router resolves as for
  the empty list of bindings, whatever the normalized sources: every continuous target
  gets its base value clamped to its legal domain and the direction mode keeps its base
  value. The result is exactly \<open>baseConfig\<close> when the base values lie in their legal
  domains (the clamp leaves them as they are).
\<close>

theorem resolve_all_disabled:
  assumes "\<forall>b\<in>set bindings. \<not> enabled b"
  shows "resolve legal thr ranges bindings normalized baseConfig
           = resolve legal thr ranges [] normalized' baseConfig
       \<and> resolve legal thr ranges bindings normalized baseConfig
           = \<lparr>numeric = (\<lambda>tgt. if continuous_target tgt then legal tgt (numeric baseConfig tgt)
                                  else numeric baseConfig tgt),
              direction_mode = direction_mode baseConfig\<rparr>
       \<and> ((\<forall>tgt. legal tgt (numeric baseConfig tgt) = numeric baseConfig tgt) \<longrightarrow>
            resolve legal thr ranges bindings normalized baseConfig = baseConfig)"
proof -
  have r: "resolve legal thr ranges bindings normalized baseConfig
           = \<lparr>numeric = (\<lambda>tgt. if continuous_target tgt then legal tgt (numeric baseConfig tgt)
                                  else numeric baseConfig tgt),
              direction_mode = direction_mode baseConfig\<rparr>"
    by (simp add: resolve_def filter_disabled [OF assms] cong: if_cong)
  moreover have "resolve legal thr ranges [] normalized' baseConfig
           = \<lparr>numeric = (\<lambda>tgt. if continuous_target tgt then legal tgt (numeric baseConfig tgt)
                                  else numeric baseConfig tgt),
              direction_mode = direction_mode baseConfig\<rparr>"
    by (simp add: resolve_def cong: if_cong)
  moreover have "resolve legal thr ranges bindings normalized baseConfig = baseConfig"
    if "\<forall>tgt. legal tgt (numeric baseConfig tgt) = numeric baseConfig tgt"
    unfolding r using that by (cases baseConfig) (simp add: fun_eq_iff)
  ultimately show ?thesis by simp
qed

lemma clamp_gains_default:
  "clamp_gains tgt (numeric defaultSoundConfig_base tgt) = numeric defaultSoundConfig_base tgt"
proof (cases "tgt \<in> {''drone.gain'', ''atmosphere.gain'', ''arp.gain''}")
  case True
  then consider "tgt = ''drone.gain''" | "tgt = ''atmosphere.gain''" | "tgt = ''arp.gain''"
    by auto
  then show ?thesis
    by cases (simp_all add: clamp_gains_def defaultSoundConfig_base_def defaultSoundConfig_numeric_def)
next
  case False
  then show ?thesis by (simp only: clamp_gains_def if_False)
qed

theorem resolve_all_disabled_witness:
  "\<not> enabled \<lparr>id' = ''1'', enabled = False, source = ''speed'', target = ''drone.filter'', amount = 0.4\<rparr>
   \<and> \<not> enabled \<lparr>id' = ''5'', enabled = False, source = ''altitude'', target = ''atmosphere.gain'', amount = 0.15\<rparr>
   \<and> (\<forall>tgt. clamp_gains tgt (numeric defaultSoundConfig_base tgt) = numeric defaultSoundConfig_base tgt)
   \<and> resolve clamp_gains 0.5 (map_of (MOD_RANGES []))
        [\<lparr>id' = ''1'', enabled = False, source = ''speed'', target = ''drone.filter'', amount = 0.4\<rparr>,
         \<lparr>id' = ''5'', enabled = False, source = ''altitude'', target = ''atmosphere.gain'', amount = 0.15\<rparr>]
        [''speed'' \<mapsto> 1, ''altitude'' \<mapsto> 1] defaultSoundConfig_base
      = defaultSoundConfig_base"
  using resolve_all_disabled
    [where bindings = "[\<lparr>id' = ''1'', enabled = False, source = ''speed'', target = ''drone.filter'', amount = 0.4\<rparr>,
         \<lparr>id' = ''5'', enabled = False, source = ''altitude'', target = ''atmosphere.gain'', amount = 0.15\<rparr>]"
       and legal = clamp_gains and thr = "0.5" and ranges = "map_of (MOD_RANGES [])"
       and normalized = "[''speed'' \<mapsto> 1, ''altitude'' \<mapsto> 1]"
       and baseConfig = defaultSoundConfig_base, THEN conjunct2, THEN conjunct2]
    clamp_gains_default
  by simp

text \<open>
  C9, as stated, fails: with the gain \<open>drone.gain\<close> at the base value \<open>2\<close>, outside its
  legal domain \<open>[0,1]\<close>, and the only binding disabled, the router resolves \<open>drone.gain\<close>
  to \<open>1\<close>, which is not the base value.
\<close>

theorem resolve_all_disabled_counterexample:
  "\<not> enabled \<lparr>id' = ''1'', enabled = False, source = ''speed'', target = ''drone.gain'', amount = 0.4\<rparr>
   \<and> numeric
       (resolve clamp_gains 0.5 (map_of (MOD_RANGES []))
          [\<lparr>id' = ''1'', enabled = False, source = ''speed'', target = ''drone.gain'', amount = 0.4\<rparr>]
          [''speed'' \<mapsto> 1]
          (defaultSoundConfig_base\<lparr>numeric := (numeric defaultSoundConfig_base)(''drone.gain'' := 2)\<rparr>))
       ''drone.gain'' = 1
   \<and> numeric (defaultSoundConfig_base\<lparr>numeric := (numeric defaultSoundConfig_base)(''drone.gain'' := 2)\<rparr>)
       ''drone.gain'' = 2
   \<and> resolve clamp_gains 0.5 (map_of (MOD_RANGES []))
          [\<lparr>id' = ''1'', enabled = False, source = ''speed'', target = ''drone.gain'', amount = 0.4\<rparr>]
          [''speed'' \<mapsto> 1]
          (defaultSoundConfig_base\<lparr>numeric := (numeric defaultSoundConfig_base)(''drone.gain'' := 2)\<rparr>)
       \<noteq> defaultSoundConfig_base\<lparr>numeric := (numeric defaultSoundConfig_base)(''drone.gain'' := 2)\<rparr>"
proof -
  let ?base = "defaultSoundConfig_base\<lparr>numeric := (numeric defaultSoundConfig_base)(''drone.gain'' := 2)\<rparr>"
  let ?r = "resolve clamp_gains 0.5 (map_of (MOD_RANGES []))
          [\<lparr>id' = ''1'', enabled = False, source = ''speed'', target = ''drone.gain'', amount = 0.4\<rparr>]
          [''speed'' \<mapsto> 1] ?base"
  have a: "numeric ?r ''drone.gain'' = 1"
    by (simp add: resolve_def clamp_gains_def continuous_target_def)
  have b: "numeric ?base ''drone.gain'' = 2"
    by simp
  from a b have "?r \<noteq> ?base" by auto
  with a b show ?thesis by simp
qed

end
